theory Spec2Isabelle
  imports Main "HOL-Library.Multiset" "HOL-Library.List_Lexorder" "HOL-Library.Char_ord"
begin

section \<open>JavaScript values used by the sources\<close>

text \<open>
  An optional string property (\<^verbatim>\<open>clockIn?: string\<close>) is a \<open>string option\<close>, with
  \<open>None\<close> for \<^verbatim>\<open>undefined\<close>. JavaScript's conditions test truthiness: \<^verbatim>\<open>undefined\<close>
  and the empty string are falsy, every other string is truthy.
\<close>

definition truthy :: "string option \<Rightarrow> bool" where
  "truthy v = (case v of None \<Rightarrow> False | Some s \<Rightarrow> s \<noteq> [])"

definition truthy_flag :: "bool option \<Rightarrow> bool" where
  "truthy_flag v = (case v of None \<Rightarrow> False | Some b \<Rightarrow> b)"

subsection \<open>Strings\<close>

text \<open>
  A string is the list of the bytes of its UTF-8 encoding (the pages of the portal hold
  Japanese text). A character beyond ASCII is a sequence of bytes from \<open>0x80\<close> on.
  Searching, splitting and joining at ASCII separators act on the bytes as they do on
  the code units of the JavaScript string, and the classes \<^verbatim>\<open>\d\<close>, \<^verbatim>\<open>\w\<close> and
  \<^verbatim>\<open>[A-Z]\<close> of the regular expressions hold ASCII characters only.
\<close>

definition is_digit :: "char \<Rightarrow> bool" where
  "is_digit c = (c \<in> set ''0123456789'')"

definition is_upper :: "char \<Rightarrow> bool" where
  "is_upper c = (c \<in> set ''ABCDEFGHIJKLMNOPQRSTUVWXYZ'')"

definition is_word_char :: "char \<Rightarrow> bool" where
  "is_word_char c =
    (c \<in> set ''abcdefghijklmnopqrstuvwxyzABCDEFGHIJKLMNOPQRSTUVWXYZ0123456789_'')"

fun starts_with :: "string \<Rightarrow> string \<Rightarrow> bool" where
  "starts_with s [] = True"
| "starts_with [] (p # ps) = False"
| "starts_with (c # cs) (p # ps) = (c = p \<and> starts_with cs ps)"

text \<open>\<^verbatim>\<open>s.includes(sub)\<close>: \<open>sub\<close> occurs in \<open>s\<close> as a contiguous substring.\<close>

fun str_includes :: "string \<Rightarrow> string \<Rightarrow> bool" where
  "str_includes [] sub = (sub = [])"
| "str_includes (c # cs) sub = (starts_with (c # cs) sub \<or> str_includes cs sub)"

text \<open>
  White space, as \<^verbatim>\<open>trim\<close>, the class \<^verbatim>\<open>\s\<close> and \<^verbatim>\<open>parseInt\<close> know it: the
  characters U+0009 to U+000D, U+0020, U+00A0, U+1680, U+2000 to U+200A, U+2028, U+2029,
  U+202F, U+205F, U+3000 and U+FEFF, each by its encoding (the no-break space U+00A0 is
  the two bytes \<open>0xC2 0xA0\<close>).
\<close>

definition white_space :: "string list" where
  "white_space =
    [[CHR 0x09], [CHR 0x0A], [CHR 0x0B], [CHR 0x0C], [CHR 0x0D], [CHR 0x20],
     [CHR 0xC2, CHR 0xA0],
     [CHR 0xE1, CHR 0x9A, CHR 0x80],
     [CHR 0xE2, CHR 0x80, CHR 0x80], [CHR 0xE2, CHR 0x80, CHR 0x81],
     [CHR 0xE2, CHR 0x80, CHR 0x82], [CHR 0xE2, CHR 0x80, CHR 0x83],
     [CHR 0xE2, CHR 0x80, CHR 0x84], [CHR 0xE2, CHR 0x80, CHR 0x85],
     [CHR 0xE2, CHR 0x80, CHR 0x86], [CHR 0xE2, CHR 0x80, CHR 0x87],
     [CHR 0xE2, CHR 0x80, CHR 0x88], [CHR 0xE2, CHR 0x80, CHR 0x89],
     [CHR 0xE2, CHR 0x80, CHR 0x8A],
     [CHR 0xE2, CHR 0x80, CHR 0xA8], [CHR 0xE2, CHR 0x80, CHR 0xA9],
     [CHR 0xE2, CHR 0x80, CHR 0xAF],
     [CHR 0xE2, CHR 0x81, CHR 0x9F],
     [CHR 0xE3, CHR 0x80, CHR 0x80],
     [CHR 0xEF, CHR 0xBB, CHR 0xBF]]"

text \<open>
  The number of bytes of the first of the given sequences that \<open>s\<close> starts with, 0 when
  it starts with none; and \<open>s\<close> without the sequences it starts with, one after the other.
\<close>

definition lead_len :: "string list \<Rightarrow> string \<Rightarrow> nat" where
  "lead_len ws s = (case find (starts_with s) ws of None \<Rightarrow> 0 | Some w \<Rightarrow> length w)"

function skip_lead :: "string list \<Rightarrow> string \<Rightarrow> string" where
  "skip_lead ws [] = []"
| "skip_lead ws (c # cs) =
     (if lead_len ws (c # cs) = 0 then c # cs
      else skip_lead ws (drop (lead_len ws (c # cs) - 1) cs))"
  by pat_completeness auto
termination
  by (relation "measure (\<lambda>(ws, s). length s)") auto

text \<open>
  \<^verbatim>\<open>s.trim()\<close> removes the white space \<open>s\<close> starts with and the white space it ends
  with; a match of \<^verbatim>\<open>\s*\<close> that cannot be shortened to any effect, and the white space
  \<^verbatim>\<open>parseInt\<close> skips, is \<open>trimStart\<close>.
\<close>

definition trimStart :: "string \<Rightarrow> string" where
  "trimStart s = skip_lead white_space s"

definition trimEnd :: "string \<Rightarrow> string" where
  "trimEnd s = rev (skip_lead (map rev white_space) (rev s))"

definition js_trim :: "string \<Rightarrow> string" where
  "js_trim s = trimEnd (trimStart s)"

text \<open>\<^verbatim>\<open>parts.join(sep)\<close>.\<close>

fun join :: "string \<Rightarrow> string list \<Rightarrow> string" where
  "join sep [] = []"
| "join sep [x] = x"
| "join sep (x # y # ys) = x @ sep @ join sep (y # ys)"

text \<open>\<^verbatim>\<open>String(n)\<close> of a natural number, and of an integer: decimal digits.\<close>

definition digit_char :: "nat \<Rightarrow> char" where
  "digit_char d = ''0123456789'' ! d"

fun show_nat :: "nat \<Rightarrow> string" where
  "show_nat n = (if n < 10 then [digit_char n] else show_nat (n div 10) @ [digit_char (n mod 10)])"

declare show_nat.simps [simp del]

definition show_int :: "int \<Rightarrow> string" where
  "show_int i = (if i < 0 then CHR ''-'' # show_nat (nat (- i)) else show_nat (nat i))"

definition digit_val :: "char \<Rightarrow> nat" where
  "digit_val c = (case map_of (zip ''0123456789'' [0, 1, 2, 3, 4, 5, 6, 7, 8, 9]) c of
                    Some d \<Rightarrow> d | None \<Rightarrow> 0)"

definition read_nat :: "string \<Rightarrow> nat" where
  "read_nat s = foldl (\<lambda>acc c. 10 * acc + digit_val c) 0 s"

subsection \<open>Failures\<close>

text \<open>
  What a call may fail with: one constructor for every \<^verbatim>\<open>throw\<close> of the sources
  (named after its message), for a rejected \<^verbatim>\<open>fetch\<close>, for a body that is not JSON, for
  a property read on \<^verbatim>\<open>null\<close> and for a selector that the selector engine rejects (with
  the engine's message).
\<close>

datatype json =
  JNull | JBool bool | JNumber int | JString string | JArray "json list"
  | JObject "(string \<times> json) list"

datatype clock_step = ClockIn | ClockOut

datatype clock_failure = BadStatus nat string | BadResult json

datatype error =
  NetworkError
  | LoginFailed string
  | AuthenticationFailed
  | LoggedOut
  | SessionExpiredReloginFailed
  | SessionExpiredReloginDisabled
  | NoValidSession
  | ModifyPageFailed nat string
  | ModifyPageSessionExpired
  | CouldNotFind string
  | ClockingNotSupported "string list"
  | NotesRequired
  | ClockFailed clock_step clock_failure
  | JsonSyntaxError
  | TypeError
  | SelectorError string

section \<open>The document tree of node-html-parser\<close>

text \<open>
  \<^verbatim>\<open>parse(html)\<close> of the library node-html-parser returns a tree of elements and text
  nodes under a root element without a tag. An element carries its name in lower case
  (which is what a selector's tag is compared with), its attributes as \<^verbatim>\<open>getAttribute\<close>
  reads them, in document order, the tokens of its \<^verbatim>\<open>classList\<close> (which the parser fills
  when it builds the element) and its children; a text node carries its text as it is
  written in the document. A reference to an element is the element together with the
  chain of its ancestors, nearest first, which is what \<^verbatim>\<open>parentNode\<close> walks.
\<close>

datatype node = Element string "(string \<times> string) list" "string list" "node list" | TextNode string

type_synonym elem = "node \<times> node list"

fun localName :: "node \<Rightarrow> string" where
  "localName (Element t as cl cs) = t"
| "localName (TextNode s) = []"

fun attributes :: "node \<Rightarrow> (string \<times> string) list" where
  "attributes (Element t as cl cs) = as"
| "attributes (TextNode s) = []"

fun classList :: "node \<Rightarrow> string list" where
  "classList (Element t as cl cs) = cl"
| "classList (TextNode s) = []"

fun childNodes :: "node \<Rightarrow> node list" where
  "childNodes (Element t as cl cs) = cs"
| "childNodes (TextNode s) = []"

definition getAttribute :: "elem \<Rightarrow> string \<Rightarrow> string option" where
  "getAttribute e k = map_of (attributes (fst e)) k"

definition hasAttribute :: "elem \<Rightarrow> string \<Rightarrow> bool" where
  "hasAttribute e k = (k \<in> set (map fst (attributes (fst e))))"

text \<open>\<^verbatim>\<open>row.classList.contains(c)\<close>.\<close>

definition classList_contains :: "elem \<Rightarrow> string \<Rightarrow> bool" where
  "classList_contains e c = (c \<in> set (classList (fst e)))"

subsection \<open>What the platform provides\<close>

text \<open>
  The sources rely on the HTML parser, on the decoding of character references
  (\<^verbatim>\<open>&amp;\<close>, \<^verbatim>\<open>&#160;\<close>) that the library applies when a text is read, on the
  letter case of Unicode, and on the selector engine. None of them is part of this
  repository. The parser is a parameter; the three others are modelled on the inputs on
  which they are plain (a text without an ampersand, an ASCII string, a selector built
  from a text free of quotes, backslashes, parentheses and brackets) and are parameters
  on the other inputs, where \<open>selectText\<close> may fail with the engine's message as
  \<^verbatim>\<open>querySelector\<close> throws.
\<close>

record platform =
  parse :: "string \<Rightarrow> node"
  entities :: "string \<Rightarrow> string"
  lowerCase :: "string \<Rightarrow> string"
  selectText :: "string \<Rightarrow> elem \<Rightarrow> string + elem option"

text \<open>\<^verbatim>\<open>s.toLowerCase()\<close>: on an ASCII string the capitals A to Z are replaced.\<close>

definition lower_char :: "char \<Rightarrow> char" where
  "lower_char c =
    (case map_of (zip ''ABCDEFGHIJKLMNOPQRSTUVWXYZ'' ''abcdefghijklmnopqrstuvwxyz'') c of
       Some l \<Rightarrow> l | None \<Rightarrow> c)"

definition is_ascii :: "char \<Rightarrow> bool" where
  "is_ascii c = (\<not> digit7 c)"

definition toLowerCase :: "platform \<Rightarrow> string \<Rightarrow> string" where
  "toLowerCase p s = (if list_all is_ascii s then map lower_char s else lowerCase p s)"

text \<open>The decoding of character references leaves a text without an ampersand as it is.\<close>

definition decode :: "platform \<Rightarrow> string \<Rightarrow> string" where
  "decode p s = (if CHR ''&'' \<in> set s then entities p s else s)"

text \<open>
  The \<^verbatim>\<open>text\<close> of a node: the texts of the text nodes below it as written, in document
  order, with a line feed for every \<^verbatim>\<open>br\<close> element, decoded.
\<close>

fun rawText :: "node \<Rightarrow> string" where
  "rawText (TextNode s) = s"
| "rawText (Element t as cl cs) = (if t = ''br'' then [CHR 0x0A] else concat (map rawText cs))"

definition node_text :: "platform \<Rightarrow> node \<Rightarrow> string" where
  "node_text p n = decode p (rawText n)"

definition elem_text :: "platform \<Rightarrow> elem \<Rightarrow> string" where
  "elem_text p e = node_text p (fst e)"

text \<open>An element and the elements below it, in document order, each with its ancestors.\<close>

fun subtree_elems :: "node list \<Rightarrow> node \<Rightarrow> elem list" where
  "subtree_elems anc (TextNode s) = []"
| "subtree_elems anc (Element t as cl cs) =
     (Element t as cl cs, anc) # concat (map (subtree_elems (Element t as cl cs # anc)) cs)"

definition descendants :: "elem \<Rightarrow> elem list" where
  "descendants e = concat (map (subtree_elems (fst e # snd e)) (childNodes (fst e)))"

text \<open>
  The selectors the sources pass to \<^verbatim>\<open>querySelector\<close> and \<^verbatim>\<open>querySelectorAll\<close>:
  \<^verbatim>\<open>tag\<close>, \<^verbatim>\<open>tag[attr="v"]\<close>, \<^verbatim>\<open>tag[attr*="v"]\<close>, \<^verbatim>\<open>[attr="v"]\<close> and
  \<^verbatim>\<open>tag:contains("v")\<close>.
\<close>

datatype selector =
  Tag string
  | TagAttrEq string string string
  | TagAttrContains string string string
  | AttrEq string string
  | TagContains string string

fun matches :: "platform \<Rightarrow> selector \<Rightarrow> elem \<Rightarrow> bool" where
  "matches p (Tag t) e = (localName (fst e) = t)"
| "matches p (TagAttrEq t a v) e = (localName (fst e) = t \<and> getAttribute e a = Some v)"
| "matches p (TagAttrContains t a v) e =
     (localName (fst e) = t \<and> (case getAttribute e a of None \<Rightarrow> False | Some w \<Rightarrow> str_includes w v))"
| "matches p (AttrEq a v) e = (getAttribute e a = Some v)"
| "matches p (TagContains t v) e = (localName (fst e) = t \<and> str_includes (elem_text p e) v)"

definition querySelectorAll :: "platform \<Rightarrow> elem \<Rightarrow> selector \<Rightarrow> elem list" where
  "querySelectorAll p e sel = filter (matches p sel) (descendants e)"

definition querySelector :: "platform \<Rightarrow> elem \<Rightarrow> selector \<Rightarrow> elem option" where
  "querySelector p e sel = (case querySelectorAll p e sel of [] \<Rightarrow> None | x # xs \<Rightarrow> Some x)"

text \<open>
  A selector that the sources build from a text of the document
  (\<^verbatim>\<open>`label[for="${id}"]`\<close>): \<open>text\<close> is the selector as built and \<open>v\<close> the text put
  between its quotes. When \<open>v\<close> holds no quote, backslash, parenthesis or bracket the
  selector engine reads \<open>v\<close> back as it is, and the selector is \<open>sel\<close>; otherwise what
  the engine makes of the selector, a result or a syntax error, is the platform's.
\<close>

definition quotable :: "string \<Rightarrow> bool" where
  "quotable v =
    list_all (\<lambda>c. c \<notin> set [CHR 0x22, CHR 0x27, CHR 0x5C, CHR ''('', CHR '')'', CHR ''['', CHR '']'']) v"

definition querySelectorBuilt :: "platform \<Rightarrow> elem \<Rightarrow> string \<Rightarrow> string \<Rightarrow> selector \<Rightarrow> error + elem option" where
  "querySelectorBuilt p e text v sel =
    (if quotable v then Inr (querySelector p e sel)
     else (case selectText p text e of
             Inl message \<Rightarrow> Inl (SelectorError message)
           | Inr found \<Rightarrow> Inr found))"

text \<open>The chain \<^verbatim>\<open>parentNode\<close>, \<^verbatim>\<open>parentNode.parentNode\<close>, ... of an element.\<close>

fun ancestor_elems :: "node list \<Rightarrow> elem list" where
  "ancestor_elems [] = []"
| "ancestor_elems (a # anc) = (a, anc) # ancestor_elems anc"

section \<open>src/lib/clock-fields.ts\<close>

datatype ClockFieldType = SelectType | TextType | TimeType

fun type_string :: "ClockFieldType \<Rightarrow> string" where
  "type_string SelectType = ''select''"
| "type_string TextType = ''text''"
| "type_string TimeType = ''time''"

text \<open>An option of a select field is the pair of its \<^verbatim>\<open>value\<close> and its \<^verbatim>\<open>label\<close>.\<close>

record ClockField =
  name :: string
  ftype :: ClockFieldType
  required :: bool
  label :: string
  options :: "(string \<times> string) list option"
  defaultValue :: "string option"

text \<open>
  A field parser returns a field, or \<^verbatim>\<open>null\<close>, or fails where looking for the label
  fails.
\<close>

type_synonym FieldParser = "platform \<Rightarrow> elem \<Rightarrow> elem \<Rightarrow> error + ClockField option"

text \<open>\<^verbatim>\<open>x || d\<close> on an optional string: \<open>x\<close> when truthy, else \<open>d\<close>.\<close>

definition or_else :: "string option \<Rightarrow> string \<Rightarrow> string" where
  "or_else v d = (case v of None \<Rightarrow> d | Some s \<Rightarrow> if s = [] then d else s)"

text \<open>
  \<^verbatim>\<open>findLabelForField\<close>: a \<^verbatim>\<open>label[for=id]\<close> of the document, else the first label
  below the nearest ancestor that has one, else a header cell whose text contains the
  field's name. The first and the third selector are built from the field's \<^verbatim>\<open>id\<close> and
  \<^verbatim>\<open>name\<close>.
\<close>

fun first_label_of :: "platform \<Rightarrow> elem list \<Rightarrow> elem option" where
  "first_label_of p [] = None"
| "first_label_of p (a # as) =
     (case querySelector p a (Tag ''label'') of Some l \<Rightarrow> Some l | None \<Rightarrow> first_label_of p as)"

definition findLabelForField :: "platform \<Rightarrow> elem \<Rightarrow> elem \<Rightarrow> error + string option" where
  "findLabelForField p field root =
    (case (if truthy (getAttribute field ''id'')
           then (let id' = the (getAttribute field ''id'')
                 in querySelectorBuilt p root (''label[for=\"'' @ id' @ ''\"]'') id'
                      (TagAttrEq ''label'' ''for'' id'))
           else Inr None) of
       Inl err \<Rightarrow> Inl err
     | Inr (Some l) \<Rightarrow> Inr (Some (js_trim (elem_text p l)))
     | Inr None \<Rightarrow>
        (case first_label_of p (ancestor_elems (snd field)) of
           Some l \<Rightarrow> Inr (Some (js_trim (elem_text p l)))
         | None \<Rightarrow>
            (if truthy (getAttribute field ''name'')
             then (let name' = the (getAttribute field ''name'')
                   in case querySelectorBuilt p root (''th:contains(\"'' @ name' @ ''\")'') name'
                             (TagContains ''th'' name') of
                        Inl err \<Rightarrow> Inl err
                      | Inr (Some th) \<Rightarrow> Inr (Some (js_trim (elem_text p th)))
                      | Inr None \<Rightarrow> Inr None)
             else Inr None)))"

definition is_required :: "elem \<Rightarrow> bool" where
  "is_required e = (hasAttribute e ''required'' \<or> getAttribute e ''required'' = Some ''required'')"

definition option_pairs :: "platform \<Rightarrow> elem \<Rightarrow> (string \<times> string) list" where
  "option_pairs p sel =
    concat (map (\<lambda>opt. let v = or_else (getAttribute opt ''value'') []; l = js_trim (elem_text p opt)
                        in if v \<noteq> [] \<and> l \<noteq> [] then [(v, l)] else [])
                (querySelectorAll p sel (Tag ''option'')))"

definition parseGroupIdField :: FieldParser where
  "parseGroupIdField p sel root =
    (if getAttribute sel ''name'' \<noteq> Some ''group_id'' then Inr None
     else let opts = option_pairs p sel in
       if length opts = 0 then Inr None
       else (case findLabelForField p sel root of
          Inl err \<Rightarrow> Inl err
        | Inr found \<Rightarrow>
           Inr (Some \<lparr> name = ''group_id'', ftype = SelectType, required = True,
                       label = or_else found ''Clock-in/out Spot'',
                       options = Some opts,
                       defaultValue = (case opts of [] \<Rightarrow> None | o1 # _ \<Rightarrow> Some (fst o1)) \<rparr>)))"

definition parseNoticeField :: FieldParser where
  "parseNoticeField p inp root =
    (if getAttribute inp ''name'' \<noteq> Some ''notice'' then Inr None
     else (case findLabelForField p inp root of
        Inl err \<Rightarrow> Inl err
      | Inr found \<Rightarrow>
         Inr (Some \<lparr> name = ''notice'', ftype = TextType, required = (is_required inp \<or> True),
                     label = or_else found ''Notes'',
                     options = None, defaultValue = None \<rparr>)))"

definition parseTimeField :: FieldParser where
  "parseTimeField p inp root =
    (case getAttribute inp ''name'' of
       None \<Rightarrow> Inr None
     | Some nm \<Rightarrow>
        if nm = [] \<or> (\<not> str_includes nm ''time'' \<and> \<not> str_includes nm ''in'' \<and> \<not> str_includes nm ''out'')
        then Inr None
        else (case findLabelForField p inp root of
           Inl err \<Rightarrow> Inl err
         | Inr None \<Rightarrow> Inr None
         | Inr (Some lbl) \<Rightarrow>
            if lbl = [] \<or> (\<not> str_includes (toLowerCase p lbl) ''time''
                            \<and> \<not> str_includes (toLowerCase p lbl) ''clock'')
            then Inr None
            else let isClockIn = (str_includes (toLowerCase p nm) ''in''
                                  \<or> str_includes (toLowerCase p lbl) ''in'');
                     isClockOut = (str_includes (toLowerCase p nm) ''out''
                                   \<or> str_includes (toLowerCase p lbl) ''out'');
                     fieldName = (if isClockIn then ''clockInTime''
                                  else if isClockOut then ''clockOutTime'' else nm)
                 in Inr (Some \<lparr> name = fieldName, ftype = TimeType,
                                 required = (is_required inp \<or> False),
                                 label = or_else (Some lbl) fieldName,
                                 options = None, defaultValue = None \<rparr>)))"

definition parseTextField :: FieldParser where
  "parseTextField p inp root =
    (case getAttribute inp ''name'' of
       None \<Rightarrow> Inr None
     | Some nm \<Rightarrow>
        if nm = [] then Inr None
        else if nm = ''notice'' \<or> nm = ''token'' \<or> nm = ''client_id'' \<or> nm = ''employee_id''
        then Inr None
        else if getAttribute inp ''type'' = Some ''hidden'' then Inr None
        else (case findLabelForField p inp root of
           Inl err \<Rightarrow> Inl err
         | Inr found \<Rightarrow>
            Inr (Some \<lparr> name = nm, ftype = TextType, required = is_required inp,
                        label = or_else found nm,
                        options = None, defaultValue = None \<rparr>)))"

text \<open>
  The registry after the module's two \<^verbatim>\<open>registerClockField\<close> calls; nothing else in
  the repository registers a parser.
\<close>

definition CLOCK_FIELD_REGISTRY :: "string \<Rightarrow> FieldParser option" where
  "CLOCK_FIELD_REGISTRY = map_of [(''group_id'', parseGroupIdField), (''notice'', parseNoticeField)]"

text \<open>
  \<^verbatim>\<open>parseClockFields\<close>: the state of its three loops is the list \<^verbatim>\<open>fields\<close> and the
  set \<^verbatim>\<open>processedNames\<close>; each loop body is a step on that state, and a loop ends at the
  first step that fails.
\<close>

type_synonym scan_state = "ClockField list \<times> string set"

fun for_each :: "(scan_state \<Rightarrow> elem \<Rightarrow> error + scan_state) \<Rightarrow> scan_state \<Rightarrow> elem list
    \<Rightarrow> error + scan_state" where
  "for_each step st [] = Inr st"
| "for_each step st (x # xs) =
     (case step st x of Inl err \<Rightarrow> Inl err | Inr st' \<Rightarrow> for_each step st' xs)"

definition registered :: "platform \<Rightarrow> string \<Rightarrow> elem \<Rightarrow> elem \<Rightarrow> error + ClockField option" where
  "registered p nm el root =
    (case CLOCK_FIELD_REGISTRY nm of None \<Rightarrow> Inr None | Some parser \<Rightarrow> parser p el root)"

definition push_field :: "scan_state \<Rightarrow> string \<Rightarrow> ClockField \<Rightarrow> scan_state" where
  "push_field st nm field = (fst st @ [field], insert nm (snd st))"

definition select_step :: "platform \<Rightarrow> elem \<Rightarrow> scan_state \<Rightarrow> elem \<Rightarrow> error + scan_state" where
  "select_step p root st sel =
    (case getAttribute sel ''name'' of
       None \<Rightarrow> Inr st
     | Some nm \<Rightarrow>
        if nm = [] \<or> nm \<in> snd st then Inr st
        else (case registered p nm sel root of
           Inl err \<Rightarrow> Inl err
         | Inr (Some field) \<Rightarrow> Inr (push_field st nm field)
         | Inr None \<Rightarrow>
            (case parseGroupIdField p sel root of
               Inl err \<Rightarrow> Inl err
             | Inr (Some field) \<Rightarrow> Inr (push_field st nm field)
             | Inr None \<Rightarrow> Inr st)))"

definition input_step :: "platform \<Rightarrow> elem \<Rightarrow> scan_state \<Rightarrow> elem \<Rightarrow> error + scan_state" where
  "input_step p root st inp =
    (case getAttribute inp ''name'' of
       None \<Rightarrow> Inr st
     | Some nm \<Rightarrow>
        if nm = [] \<or> nm \<in> snd st then Inr st
        else if getAttribute inp ''type'' = Some ''hidden'' \<or> nm = ''token'' \<or> nm = ''client_id''
                \<or> nm = ''employee_id'' then Inr st
        else (case registered p nm inp root of
           Inl err \<Rightarrow> Inl err
         | Inr (Some field) \<Rightarrow> Inr (push_field st nm field)
         | Inr None \<Rightarrow>
            (case parseNoticeField p inp root of
               Inl err \<Rightarrow> Inl err
             | Inr (Some field) \<Rightarrow> Inr (push_field st nm field)
             | Inr None \<Rightarrow>
                (case parseTimeField p inp root of
                   Inl err \<Rightarrow> Inl err
                 | Inr (Some field) \<Rightarrow> Inr (push_field st nm field)
                 | Inr None \<Rightarrow>
                    (case parseTextField p inp root of
                       Inl err \<Rightarrow> Inl err
                     | Inr (Some field) \<Rightarrow> Inr (push_field st nm field)
                     | Inr None \<Rightarrow> Inr st)))))"

definition textarea_step :: "platform \<Rightarrow> elem \<Rightarrow> scan_state \<Rightarrow> elem \<Rightarrow> error + scan_state" where
  "textarea_step p root st ta =
    (case getAttribute ta ''name'' of
       None \<Rightarrow> Inr st
     | Some nm \<Rightarrow>
        if nm = [] \<or> nm \<in> snd st then Inr st
        else (case findLabelForField p ta root of
           Inl err \<Rightarrow> Inl err
         | Inr found \<Rightarrow>
            Inr (push_field st nm
                   \<lparr> name = nm, ftype = TextType, required = is_required ta,
                     label = or_else found nm, options = None, defaultValue = None \<rparr>)))"

definition ensure_clock_times :: "ClockField list \<Rightarrow> ClockField list" where
  "ensure_clock_times fs =
    (let hasClockInTime = (\<exists>f \<in> set fs. name f = ''clockInTime'');
         hasClockOutTime = (\<exists>f \<in> set fs. name f = ''clockOutTime'');
         fields1 = (if \<not> hasClockInTime
                    then fs @ [\<lparr> name = ''clockInTime'', ftype = TimeType, required = False,
                                      label = ''Clock In Time'', options = None,
                                      defaultValue = Some ''10:00'' \<rparr>]
                    else fs)
     in if \<not> hasClockOutTime
        then fields1 @ [\<lparr> name = ''clockOutTime'', ftype = TimeType, required = False,
                           label = ''Clock Out Time'', options = None,
                           defaultValue = Some ''19:00'' \<rparr>]
        else fields1)"

definition parseClockFields_root :: "platform \<Rightarrow> elem \<Rightarrow> error + ClockField list" where
  "parseClockFields_root p root =
    (case for_each (select_step p root) ([], {}) (querySelectorAll p root (Tag ''select'')) of
       Inl err \<Rightarrow> Inl err
     | Inr st1 \<Rightarrow>
        (case for_each (input_step p root) st1 (querySelectorAll p root (Tag ''input'')) of
           Inl err \<Rightarrow> Inl err
         | Inr st2 \<Rightarrow>
            (case for_each (textarea_step p root) st2 (querySelectorAll p root (Tag ''textarea'')) of
               Inl err \<Rightarrow> Inl err
             | Inr st3 \<Rightarrow> Inr (ensure_clock_times (fst st3)))))"

definition parseClockFields :: "platform \<Rightarrow> string \<Rightarrow> error + ClockField list" where
  "parseClockFields p html = parseClockFields_root p (parse p html, [])"

text \<open>
  \<^verbatim>\<open>generateFieldSchema\<close>. \<^verbatim>\<open>Array.prototype.sort\<close> is a stable sort, and the
  comparison \<^verbatim>\<open>a.name.localeCompare(b.name)\<close> orders names by the collation of the
  host's locale, which is not part of the repository: \<open>collate\<close> maps a name to its
  collation key, and two names compare equal exactly when their keys are equal. The
  stable sort by a key is \<open>sort_key\<close>.
\<close>

definition field_signature :: "ClockField \<Rightarrow> string" where
  "field_signature field =
    join '':''
      ([name field, type_string (ftype field), if required field then ''required'' else ''optional'']
       @ (if ftype field = SelectType \<and> options field \<noteq> None
          then [''options:'' @ show_nat (length (the (options field)))] else []))"

definition generateFieldSchema :: "(string \<Rightarrow> 'k::linorder) \<Rightarrow> ClockField list \<Rightarrow> string" where
  "generateFieldSchema collate fs =
    join ''|'' (map field_signature (sort_key (\<lambda>f. collate (name f)) fs))"

section \<open>src/lib/types.ts\<close>

record AttendanceEntryRaw =
  r_date :: string
  r_dayOfWeek :: string
  r_holidayType :: "string option"
  r_shiftTime :: "string option"
  r_clockIn :: "string option"
  r_clockOut :: "string option"
  r_workingHours :: "string option"
  r_offShiftWorkingHours :: "string option"
  r_overtime :: "string option"
  r_nightShift :: "string option"
  r_break :: "string option"
  r_status :: "string list"
  r_statusTooltip :: "string option"
  r_isPending :: "bool option"

datatype AttendanceStatus =
  Pending | Logged | HolidayWork | Absence | Late | PaidVacation
  | SubstitutionHoliday | Holiday | Unlogged

record AttendanceEntry =
  date :: string
  dayOfWeek :: string
  holidayType :: "string option"
  shiftTime :: "string option"
  clockIn :: "string option"
  clockOut :: "string option"
  workingHours :: "string option"
  offShiftWorkingHours :: "string option"
  overtime :: "string option"
  nightShift :: "string option"
  break :: "string option"
  status :: AttendanceStatus
  rawStatus :: "string list"
  statusTooltip :: "string option"
  isLogged :: bool
  isHoliday :: bool

text \<open>
  \<^verbatim>\<open>transformAttendanceEntry\<close>: \<^verbatim>\<open>!!(a && b && c)\<close> is the conjunction of the
  three truthiness tests, \<^verbatim>\<open>raw.status.includes(c)\<close> is membership in the list of
  status codes (strict equality of strings).
\<close>

definition transformAttendanceEntry :: "AttendanceEntryRaw \<Rightarrow> AttendanceEntry" where
  "transformAttendanceEntry raw =
    (let isLogged' = (truthy (r_clockIn raw) \<and> truthy (r_clockOut raw) \<and> truthy (r_workingHours raw));
         isHoliday' = truthy (r_holidayType raw);
         status' =
           (if truthy_flag (r_isPending raw) then Pending
            else if isHoliday' \<and> isLogged' then HolidayWork
            else if isLogged' then Logged
            else if ''A'' \<in> set (r_status raw) then Absence
            else if ''L'' \<in> set (r_status raw) then Late
            else if ''PV'' \<in> set (r_status raw) then PaidVacation
            else if ''SH'' \<in> set (r_status raw) then SubstitutionHoliday
            else if isHoliday' then Holiday
            else Unlogged)
     in \<lparr> date = r_date raw,
          dayOfWeek = r_dayOfWeek raw,
          holidayType = r_holidayType raw,
          shiftTime = r_shiftTime raw,
          clockIn = r_clockIn raw,
          clockOut = r_clockOut raw,
          workingHours = r_workingHours raw,
          offShiftWorkingHours = r_offShiftWorkingHours raw,
          overtime = r_overtime raw,
          nightShift = r_nightShift raw,
          break = r_break raw,
          status = status',
          rawStatus = r_status raw,
          statusTooltip = r_statusTooltip raw,
          isLogged = isLogged',
          isHoliday = isHoliday' \<rparr>)"

subsection \<open>The precedence of the specification\<close>

text \<open>
  The specification's words, kept apart from the code: a field is present when it is
  neither \<^verbatim>\<open>undefined\<close> nor empty, and the status is the one of the first rule of the
  precedence list whose condition holds, \<open>Unlogged\<close> when none does.
\<close>

definition present :: "string option \<Rightarrow> bool" where
  "present v = (v \<noteq> None \<and> v \<noteq> Some [])"

definition fully_logged :: "AttendanceEntryRaw \<Rightarrow> bool" where
  "fully_logged raw = (present (r_clockIn raw) \<and> present (r_clockOut raw) \<and> present (r_workingHours raw))"

definition status_precedence :: "AttendanceEntryRaw \<Rightarrow> (bool \<times> AttendanceStatus) list" where
  "status_precedence raw =
    [ (r_isPending raw = Some True, Pending),
      (present (r_holidayType raw) \<and> fully_logged raw, HolidayWork),
      (fully_logged raw, Logged),
      (''A'' \<in> set (r_status raw), Absence),
      (''L'' \<in> set (r_status raw), Late),
      (''PV'' \<in> set (r_status raw), PaidVacation),
      (''SH'' \<in> set (r_status raw), SubstitutionHoliday),
      (present (r_holidayType raw), Holiday) ]"

fun first_match :: "(bool \<times> 'a) list \<Rightarrow> 'a \<Rightarrow> 'a" where
  "first_match [] d = d"
| "first_match ((c, v) # rest) d = (if c then v else first_match rest d)"

definition pending_holiday_work :: AttendanceEntryRaw where
  "pending_holiday_work =
    \<lparr> r_date = ''2025-10-25'', r_dayOfWeek = ''Sat'', r_holidayType = Some ''National'',
      r_shiftTime = None, r_clockIn = Some ''09:00'', r_clockOut = Some ''18:00'',
      r_workingHours = Some ''08:00'', r_offShiftWorkingHours = None, r_overtime = None,
      r_nightShift = None, r_break = Some ''01:00'', r_status = [],
      r_statusTooltip = None, r_isPending = Some True \<rparr>"

definition holiday_work_with_codes :: AttendanceEntryRaw where
  "holiday_work_with_codes = pending_holiday_work \<lparr> r_status := [''A'', ''PV''], r_isPending := None \<rparr>"

section \<open>src/lib/constants.ts\<close>

definition SSL_BASE_URL :: string where
  "SSL_BASE_URL = ''https://ssl.jobcan.jp''"

definition CACHE_TTL_SESSION :: int where
  "CACHE_TTL_SESSION = 24 * 60 * 60 * 1000"

definition SESSION_COOKIE :: string where
  "SESSION_COOKIE = ''jobcan_session_cookie''"

definition SESSION_COOKIES :: string where
  "SESSION_COOKIES = ''jobcan_session_cookies''"

definition SESSION_EXPIRY :: string where
  "SESSION_EXPIRY = ''jobcan_session_expiry''"

section \<open>src/lib/auth.ts: cookies\<close>

text \<open>
  \<^verbatim>\<open>s.split(sep)\<close> for a string separator: the pieces between the occurrences of
  \<open>sep\<close>, found from left to right; the empty separator splits into single characters.
\<close>

function split_from :: "string \<Rightarrow> string \<Rightarrow> string \<Rightarrow> string list" where
  "split_from sep cur [] = [cur]"
| "split_from sep cur (c # cs) =
     (if sep \<noteq> [] \<and> starts_with (c # cs) sep
      then cur # split_from sep [] (drop (length sep) (c # cs))
      else split_from sep (cur @ [c]) cs)"
  by pat_completeness auto
termination
  by (relation "measure (\<lambda>(sep, cur, s). length s)") auto

definition split_on :: "string \<Rightarrow> string \<Rightarrow> string list" where
  "split_on sep s = (if sep = [] then map (\<lambda>c. [c]) s else split_from sep [] s)"

text \<open>
  The lookahead \<^verbatim>\<open>(?=\w+=)\<close>: one or more word characters and then an equals sign.
  \<^verbatim>\<open>s.split(/,\s*(?=\w+=)/)\<close> cuts at every comma that, after any white space, is
  followed by such a name; the comma and the white space are dropped.
\<close>

definition lookahead_name_eq :: "string \<Rightarrow> bool" where
  "lookahead_name_eq s =
    (takeWhile is_word_char s \<noteq> [] \<and> starts_with (dropWhile is_word_char s) ''='')"

function split_set_cookie :: "string \<Rightarrow> string \<Rightarrow> string list" where
  "split_set_cookie cur [] = [cur]"
| "split_set_cookie cur (c # cs) =
     (if c = CHR '','' \<and> lookahead_name_eq (trimStart cs)
      then cur # split_set_cookie [] (trimStart cs)
      else split_set_cookie (cur @ [c]) cs)"
  by pat_completeness auto
termination
proof (relation "measure (\<lambda>(cur, s). length s)")
  show "wf (measure (\<lambda>(cur, s). length s))" by simp
next
  fix cur :: string and c :: char and cs :: string
  have "length (skip_lead ws s) \<le> length s" for ws s
    by (induction ws s rule: skip_lead.induct) (auto simp: le_SucI intro: le_trans)
  then have "length (trimStart cs) \<le> length cs" by (simp add: trimStart_def)
  then show "(([], trimStart cs), cur, c # cs) \<in> measure (\<lambda>(cur, s). length s)" by simp
next
  fix cur :: string and c :: char and cs :: string
  show "((cur @ [c], cs), cur, c # cs) \<in> measure (\<lambda>(cur, s). length s)" by simp
qed

text \<open>
  \<^verbatim>\<open>parseCookies\<close>: of every piece the text before the first semicolon
  (\<^verbatim>\<open>/^([^;]+)/\<close>, which does not match a piece that is empty or starts with a
  semicolon), trimmed; the results joined by \<^verbatim>\<open>"; "\<close>.
\<close>

definition first_segment :: "string \<Rightarrow> string list" where
  "first_segment cookieString =
    (let m = takeWhile (\<lambda>c. c \<noteq> CHR '';'') cookieString in if m = [] then [] else [js_trim m])"

definition parseCookies :: "string option \<Rightarrow> string" where
  "parseCookies setCookieHeader =
    (if \<not> truthy setCookieHeader then []
     else join ''; '' (concat (map first_segment (split_set_cookie [] (the setCookieHeader)))))"

definition looks_like_set_cookie :: "string \<Rightarrow> bool" where
  "looks_like_set_cookie cookieInput =
    (str_includes cookieInput ''path='' \<or> str_includes cookieInput ''secure''
     \<or> str_includes cookieInput ''HttpOnly'')"

definition parseCookieString :: "string \<Rightarrow> string" where
  "parseCookieString cookieInput =
    (if looks_like_set_cookie cookieInput then parseCookies (Some cookieInput) else cookieInput)"

text \<open>
  The object \<^verbatim>\<open>allCookies\<close> is a list of its own properties in the order of their
  creation. An assignment replaces the value of an existing property where it stands
  and appends a new one; only the key \<^verbatim>\<open>__proto__\<close> is not created by assignment
  (the inherited setter ignores a string). \<^verbatim>\<open>Object.entries\<close> lists the keys that are
  array indices first, in ascending order, then the other keys in creation order.
\<close>

type_synonym js_object = "(string \<times> string) list"

fun obj_update :: "js_object \<Rightarrow> string \<Rightarrow> string \<Rightarrow> js_object" where
  "obj_update [] k v = [(k, v)]"
| "obj_update ((k', v') # kvs) k v =
     (if k' = k then (k, v) # kvs else (k', v') # obj_update kvs k v)"

definition obj_assign :: "js_object \<Rightarrow> string \<Rightarrow> string \<Rightarrow> js_object" where
  "obj_assign obj k v = (if k = ''__proto__'' then obj else obj_update obj k v)"

definition is_array_index :: "string \<Rightarrow> bool" where
  "is_array_index k =
    (k \<noteq> [] \<and> list_all is_digit k \<and> (k = ''0'' \<or> hd k \<noteq> CHR ''0'')
     \<and> read_nat k \<le> 4294967294)"

definition object_entries :: "js_object \<Rightarrow> (string \<times> string) list" where
  "object_entries obj =
    sort_key (\<lambda>kv. read_nat (fst kv)) (filter (\<lambda>kv. is_array_index (fst kv)) obj)
    @ filter (\<lambda>kv. \<not> is_array_index (fst kv)) obj"

text \<open>
  \<^verbatim>\<open>mergeCookies\<close>: the body of \<^verbatim>\<open>forEach\<close> is \<open>assign_cookie\<close>, the body of the
  loop over the headers is \<open>merge_header\<close>. \<^verbatim>\<open>const [name, value] = cookie.split("=")\<close>
  takes the first two pieces; \<open>value\<close> is \<^verbatim>\<open>undefined\<close> when there is one piece only.
\<close>

definition assign_cookie :: "js_object \<Rightarrow> string \<Rightarrow> js_object" where
  "assign_cookie allCookies cookie =
    (case split_on ''='' cookie of
       nm # val # rest \<Rightarrow> if nm \<noteq> [] \<and> val \<noteq> [] then obj_assign allCookies nm val else allCookies
     | _ \<Rightarrow> allCookies)"

definition merge_header :: "js_object \<Rightarrow> string option \<Rightarrow> js_object" where
  "merge_header allCookies header =
    (if truthy header
     then (let cookies = parseCookieString (the header)
           in if cookies \<noteq> [] then foldl assign_cookie allCookies (split_on ''; '' cookies)
              else allCookies)
     else allCookies)"

definition cookie_string :: "(string \<times> string) list \<Rightarrow> string" where
  "cookie_string entries = join ''; '' (map (\<lambda>(nm, val). nm @ ''='' @ val) entries)"

definition mergeCookies :: "string option list \<Rightarrow> string" where
  "mergeCookies cookieHeaders = cookie_string (object_entries (foldl merge_header [] cookieHeaders))"

section \<open>src/lib/auth.ts: the stored session\<close>

text \<open>
  \<^verbatim>\<open>parseInt(s, 10)\<close>: leading white space, an optional sign, then the longest run of
  decimal digits; \<open>None\<close> is \<^verbatim>\<open>NaN\<close>. Numbers are unbounded integers here (a
  timestamp in milliseconds is far below \<open>2\<^sup>5\<^sup>3\<close>, where JavaScript's numbers are exact).
\<close>

definition parseInt10 :: "string \<Rightarrow> int option" where
  "parseInt10 s =
    (let t = trimStart s;
         neg = starts_with t ''-'';
         u = (if starts_with t ''-'' \<or> starts_with t ''+'' then tl t else t);
         ds = takeWhile is_digit u
     in if ds = [] then None
        else Some (if neg then - int (read_nat ds) else int (read_nat ds)))"

record SessionData =
  sid :: string
  cookies :: string
  expiry :: int

record Preferences =
  email :: string
  password :: string
  autoReloginOnRefreshFailure :: bool

text \<open>
  A request and a response of \<^verbatim>\<open>fetch\<close>. The body of a request is the list of the
  form fields given to \<^verbatim>\<open>URLSearchParams\<close>. Of a response the sources read the status,
  the status text, the body as text and the body as JSON (\<open>None\<close> when the body is not
  JSON, where \<^verbatim>\<open>response.json()\<close> rejects).
\<close>

record request =
  url :: string
  http_method :: string
  headers :: "(string \<times> string) list"
  form :: "(string \<times> string) list option"

record response =
  status_code :: nat
  statusText :: string
  body_text :: string
  body_json :: "json option"

definition ok :: "response \<Rightarrow> bool" where
  "ok r = (200 \<le> status_code r \<and> status_code r \<le> 299)"

text \<open>
  The network activity of a run, in order: every \<^verbatim>\<open>fetch\<close> the modelled functions
  issue, with what it returned, and every run of \<^verbatim>\<open>login\<close>. The HTTP exchanges inside
  \<^verbatim>\<open>login\<close> (sign-in page, credentials, authorization, callback, redirects) are not
  itemised: a run of \<^verbatim>\<open>login\<close> is one event that carries what it was called with
  and what its exchanges produced, an error or the session identifier and cookies.
\<close>

datatype event =
  Exchange request "error + response"
  | LoginFlow string string "error + string \<times> string"

text \<open>
  The state the functions act on: \<^verbatim>\<open>LocalStorage\<close>, the number of readings of
  \<^verbatim>\<open>Date.now()\<close> taken so far, and the network activity so far.
\<close>

record world =
  storage :: "string \<Rightarrow> string option"
  ticks :: nat
  trace :: "event list"

text \<open>
  What the functions do not decide: the preferences, the clock (\<open>now env i\<close> is the
  \<open>i\<close>-th reading of \<^verbatim>\<open>Date.now()\<close>), the servers (what a request is answered with,
  given the activity before it; what the exchanges of a login produce) and the
  platform.
\<close>

record env =
  prefs :: Preferences
  now :: "nat \<Rightarrow> int"
  respond :: "event list \<Rightarrow> request \<Rightarrow> error + response"
  login_flow :: "event list \<Rightarrow> string \<Rightarrow> string \<Rightarrow> error + string \<times> string"
  platform :: platform

definition date_now :: "env \<Rightarrow> world \<Rightarrow> int \<times> world" where
  "date_now e w = (now e (ticks w), w\<lparr>ticks := Suc (ticks w)\<rparr>)"

definition fetch :: "env \<Rightarrow> request \<Rightarrow> world \<Rightarrow> (error + response) \<times> world" where
  "fetch e req w =
    (let r = respond e (trace w) req in (r, w\<lparr>trace := trace w @ [Exchange req r]\<rparr>))"

definition setItem :: "string \<Rightarrow> string \<Rightarrow> world \<Rightarrow> world" where
  "setItem k v w = w\<lparr>storage := (storage w)(k \<mapsto> v)\<rparr>"

definition removeItem :: "string \<Rightarrow> world \<Rightarrow> world" where
  "removeItem k w = w\<lparr>storage := (storage w)(k := None)\<rparr>"

definition storeSession :: "env \<Rightarrow> string \<Rightarrow> string \<Rightarrow> world \<Rightarrow> world" where
  "storeSession e sid' allCookies w =
    (let (t, w1) = date_now e w;
         expiry' = t + CACHE_TTL_SESSION
     in setItem SESSION_EXPIRY (show_int expiry')
          (setItem SESSION_COOKIES allCookies (setItem SESSION_COOKIE sid' w1)))"

definition clearStoredSession :: "world \<Rightarrow> world" where
  "clearStoredSession w =
    removeItem SESSION_EXPIRY (removeItem SESSION_COOKIES (removeItem SESSION_COOKIE w))"

text \<open>
  \<^verbatim>\<open>getStoredSession\<close>. In \<^verbatim>\<open>isNaN(expiry) || expiry < Date.now()\<close> the clock is
  read only when the stored expiry is a number.
\<close>

definition getStoredSession :: "env \<Rightarrow> world \<Rightarrow> SessionData option \<times> world" where
  "getStoredSession e w =
    (let sid' = storage w SESSION_COOKIE;
         cookies' = storage w SESSION_COOKIES;
         expiryStr = storage w SESSION_EXPIRY
     in if \<not> truthy sid' \<or> \<not> truthy cookies' \<or> \<not> truthy expiryStr then (None, w)
        else (case parseInt10 (the expiryStr) of
           None \<Rightarrow> (None, clearStoredSession w)
         | Some expiry' \<Rightarrow>
            (let (t, w1) = date_now e w
             in if expiry' < t then (None, clearStoredSession w1)
                else (Some \<lparr> sid = the sid', cookies = the cookies', expiry = expiry' \<rparr>, w1))))"

text \<open>
  \<^verbatim>\<open>login\<close>: its exchanges are the environment's; on success it ends with
  \<^verbatim>\<open>storeSession(sid, allCallbackCookies)\<close> and returns the session identifier.
\<close>

definition login :: "env \<Rightarrow> string \<Rightarrow> string \<Rightarrow> world \<Rightarrow> (error + string) \<times> world" where
  "login e email' password' w =
    (let outcome = login_flow e (trace w) email' password';
         w1 = w\<lparr>trace := trace w @ [LoginFlow email' password' outcome]\<rparr>
     in case outcome of
          Inl err \<Rightarrow> (Inl err, w1)
        | Inr (sid', allCookies) \<Rightarrow> (Inr sid', storeSession e sid' allCookies w1))"

definition getSessionCookie :: "env \<Rightarrow> world \<Rightarrow> (error + string) \<times> world" where
  "getSessionCookie e w =
    (let (session, w1) = getStoredSession e w
     in case session of None \<Rightarrow> (Inl NoValidSession, w1) | Some s \<Rightarrow> (Inr (sid s), w1))"

definition getSessionCookies :: "env \<Rightarrow> world \<Rightarrow> (error + string) \<times> world" where
  "getSessionCookies e w =
    (let (session, w1) = getStoredSession e w
     in case session of
          None \<Rightarrow> (Inl NoValidSession, w1)
        | Some s \<Rightarrow>
            (Inr (mergeCookies [Some (cookies s), Some ''employee_language=en; __bd_fedee=1'']), w1))"

definition auto_relogin :: "Preferences \<Rightarrow> bool" where
  "auto_relogin p = (autoReloginOnRefreshFailure p \<and> email p \<noteq> [] \<and> password p \<noteq> [])"

definition ensureValidSession :: "env \<Rightarrow> world \<Rightarrow> (error + string) \<times> world" where
  "ensureValidSession e w =
    (let (session, w1) = getStoredSession e w;
         preferences = prefs e
     in case session of
          None \<Rightarrow>
            if auto_relogin preferences
            then (case login e (email preferences) (password preferences) w1 of
                    (Inr sid', w2) \<Rightarrow> (Inr sid', w2)
                  | (Inl err, w2) \<Rightarrow> (Inl AuthenticationFailed, w2))
            else (Inl LoggedOut, w1)
        | Some s \<Rightarrow>
            (let (t, w2) = date_now e w1;
                 timeUntilExpiry = expiry s - t
             in if timeUntilExpiry < 5 * 60 * 1000
                then (if auto_relogin preferences
                      then (case login e (email preferences) (password preferences) w2 of
                              (Inr sid', w3) \<Rightarrow> (Inr sid', w3)
                            | (Inl err, w3) \<Rightarrow> (Inl SessionExpiredReloginFailed, w3))
                      else (Inl SessionExpiredReloginDisabled, w2))
                else (Inr (sid s), w2)))"

definition isAuthenticated :: "env \<Rightarrow> world \<Rightarrow> bool \<times> world" where
  "isAuthenticated e w =
    (let (session, w1) = getStoredSession e w
     in case session of
          None \<Rightarrow> (False, w1)
        | Some s \<Rightarrow>
            (let (t, w2) = date_now e w1
             in if expiry s < t + 5 * 60 * 1000 then (False, w2) else (True, w2)))"

section \<open>src/lib/api.ts: the clock executor\<close>

definition USER_AGENT :: string where
  "USER_AGENT = ''Mozilla/5.0 (Macintosh; Intel Mac OS X 10_15_7) AppleWebKit/537.36 (KHTML, like Gecko) Chrome/142.0.0.0 Safari/537.36''"

definition getDefaultHeaders :: "env \<Rightarrow> bool \<Rightarrow> world \<Rightarrow> (error + (string \<times> string) list) \<times> world" where
  "getDefaultHeaders e skipValidation w =
    (case (if \<not> skipValidation then ensureValidSession e w else (Inr [], w)) of
       (Inl err, w1) \<Rightarrow> (Inl err, w1)
     | (Inr validated, w1) \<Rightarrow>
        (case getSessionCookies e w1 of
           (Inl err, w2) \<Rightarrow> (Inl err, w2)
         | (Inr cookies', w2) \<Rightarrow>
            (Inr [(''Accept'', ''text/html,application/xhtml+xml,application/xml;q=0.9,*/*;q=0.8''),
                  (''Accept-Language'', ''en-US,en;q=0.9''),
                  (''Cookie'', cookies'),
                  (''Referer'', SSL_BASE_URL @ ''/employee''),
                  (''User-Agent'', USER_AGENT)], w2)))"

record ModifyPageData =
  token :: string
  clientId :: string
  employeeId :: string
  availableSpots :: "(string \<times> string) list"
  formFields :: "ClockField list"

record ClockingValidation =
  supported :: bool
  missingFields :: "string list"

text \<open>The four characters of the Japanese word for "login", in UTF-8.\<close>

definition LOGIN_JA :: string where
  "LOGIN_JA = [CHR 0xE3, CHR 0x83, CHR 0xAD, CHR 0xE3, CHR 0x82, CHR 0xB0,
               CHR 0xE3, CHR 0x82, CHR 0xA4, CHR 0xE3, CHR 0x83, CHR 0xB3]"

text \<open>
  \<^verbatim>\<open>getModifyPageData\<close>, in two parts: the request for the page with the checks of
  the response, and \<open>readModifyPage\<close>, what the function does from
  \<^verbatim>\<open>const root = parse(html)\<close> on. A spot is the pair of its \<^verbatim>\<open>id\<close> and its
  \<^verbatim>\<open>name\<close>; the loop over the options of the \<^verbatim>\<open>group_id\<close> select is the one of
  \<^verbatim>\<open>parseGroupIdField\<close>.
\<close>

definition input_value :: "elem \<Rightarrow> string" where
  "input_value inp = or_else (getAttribute inp ''value'') []"

definition readModifyPage :: "platform \<Rightarrow> string \<Rightarrow> error + ModifyPageData" where
  "readModifyPage p html =
    (let root = (parse p html, []) in
     case querySelector p root (TagAttrEq ''input'' ''name'' ''token'') of
       None \<Rightarrow> Inl (CouldNotFind ''token'')
     | Some tokenInput \<Rightarrow>
     (case querySelector p root (TagAttrEq ''input'' ''name'' ''client_id'') of
       None \<Rightarrow> Inl (CouldNotFind ''client_id'')
     | Some clientIdInput \<Rightarrow>
     (case querySelector p root (TagAttrEq ''input'' ''name'' ''employee_id'') of
       None \<Rightarrow> Inl (CouldNotFind ''employee_id'')
     | Some employeeIdInput \<Rightarrow>
        (let spots = (case querySelector p root (TagAttrEq ''select'' ''name'' ''group_id'') of
                        None \<Rightarrow> [] | Some groupSelect \<Rightarrow> option_pairs p groupSelect)
         in case parseClockFields p html of
              Inl err \<Rightarrow> Inl err
            | Inr fs \<Rightarrow>
               Inr \<lparr> token = input_value tokenInput,
                     clientId = input_value clientIdInput,
                     employeeId = input_value employeeIdInput,
                     availableSpots = spots,
                     formFields = fs \<rparr>))))"

definition getModifyPageData :: "env \<Rightarrow> int \<Rightarrow> int \<Rightarrow> int \<Rightarrow> world \<Rightarrow> (error + ModifyPageData) \<times> world" where
  "getModifyPageData e year' month' day' w =
    (case getDefaultHeaders e False w of
       (Inl err, w1) \<Rightarrow> (Inl err, w1)
     | (Inr hdrs, w1) \<Rightarrow>
        (let url' = SSL_BASE_URL @ ''/employee/adit/modify?year='' @ show_int year'
                     @ ''&month='' @ show_int month' @ ''&day='' @ show_int day'
         in case fetch e \<lparr> url = url', http_method = ''GET'', headers = hdrs, form = None \<rparr> w1 of
              (Inl err, w2) \<Rightarrow> (Inl err, w2)
            | (Inr resp, w2) \<Rightarrow>
               if \<not> ok resp then (Inl (ModifyPageFailed (status_code resp) (statusText resp)), w2)
               else (let html = body_text resp in
                 if str_includes html ''sign_in'' \<or> str_includes html LOGIN_JA
                 then (Inl ModifyPageSessionExpired, w2)
                 else (readModifyPage (platform e) html, w2))))"

definition validateClockingSupport :: "ModifyPageData \<Rightarrow> ClockingValidation" where
  "validateClockingSupport modifyPageData =
    (let missing =
           (if token modifyPageData = [] then [''token''] else [])
           @ (if clientId modifyPageData = [] then [''client_id''] else [])
           @ (if employeeId modifyPageData = [] then [''employee_id''] else [])
           @ (if length (availableSpots modifyPageData) = 0 then [''group_id (no spots available)''] else [])
     in \<lparr> supported = (length missing = 0), missingFields = missing \<rparr>)"

text \<open>\<^verbatim>\<open>time.replace(":", "")\<close> removes the first colon.\<close>

fun convertTimeFormat :: "string \<Rightarrow> string" where
  "convertTimeFormat [] = []"
| "convertTimeFormat (c # cs) = (if c = CHR '':'' then cs else c # convertTimeFormat cs)"

text \<open>
  The arguments of \<^verbatim>\<open>clockInOut\<close>: a date, of which the local year, month (from 0) and
  day of the month are read, and either a map of field values or the clock-in time with
  the optional clock-out time, spot and notes.
\<close>

record js_date =
  getFullYear :: int
  getMonth :: int
  getDate :: int

datatype clock_input =
  FieldMap "string \<Rightarrow> string option"
  | Individual string "string option" "string option" "string option"

fun clockInTime_of :: "clock_input \<Rightarrow> string" where
  "clockInTime_of (FieldMap fieldMap) = or_else (fieldMap ''clockInTime'') ''10:00''"
| "clockInTime_of (Individual clockInTime' clockOutTime' spotNameOrId notes) = clockInTime'"

fun clockOutTime_of :: "clock_input \<Rightarrow> string" where
  "clockOutTime_of (FieldMap fieldMap) = or_else (fieldMap ''clockOutTime'') ''19:00''"
| "clockOutTime_of (Individual clockInTime' clockOutTime' spotNameOrId notes) = or_else clockOutTime' ''19:00''"

fun spotNameOrId_of :: "clock_input \<Rightarrow> string" where
  "spotNameOrId_of (FieldMap fieldMap) = or_else (fieldMap ''group_id'') []"
| "spotNameOrId_of (Individual clockInTime' clockOutTime' spotNameOrId notes) = or_else spotNameOrId []"

fun notes_of :: "clock_input \<Rightarrow> string" where
  "notes_of (FieldMap fieldMap) = or_else (fieldMap ''notice'') []"
| "notes_of (Individual clockInTime' clockOutTime' spotNameOrId notes) = or_else notes []"

text \<open>
  Step 3 of \<^verbatim>\<open>clockInOut\<close>: the identifier of the spot. \<^verbatim>\<open>availableSpots[0].id\<close>
  is a \<^verbatim>\<open>TypeError\<close> on an empty list.
\<close>

definition first_spot_id :: "(string \<times> string) list \<Rightarrow> error + string" where
  "first_spot_id spots = (case spots of [] \<Rightarrow> Inl TypeError | sp # rest \<Rightarrow> Inr (fst sp))"

definition resolve_spot :: "platform \<Rightarrow> (string \<times> string) list \<Rightarrow> string \<Rightarrow> error + string" where
  "resolve_spot p spots spotNameOrIdValue =
    (if spotNameOrIdValue \<noteq> [] \<and> \<not> list_all is_digit spotNameOrIdValue
     then (case find (\<lambda>sp. str_includes (toLowerCase p (snd sp)) (toLowerCase p spotNameOrIdValue)
                           \<or> str_includes (toLowerCase p spotNameOrIdValue) (toLowerCase p (snd sp))) spots of
             Some sp \<Rightarrow> Inr (fst sp)
           | None \<Rightarrow> first_spot_id spots)
     else if spotNameOrIdValue = [] then first_spot_id spots
     else Inr spotNameOrIdValue)"

definition insert_form :: "ModifyPageData \<Rightarrow> int \<Rightarrow> int \<Rightarrow> int \<Rightarrow> string \<Rightarrow> string \<Rightarrow> string
    \<Rightarrow> (string \<times> string) list" where
  "insert_form modifyData year' month' day' time' groupId notesValue =
    [(''token'', token modifyData),
     (''year'', show_int year'),
     (''month'', show_int month'),
     (''day'', show_int day'),
     (''client_id'', clientId modifyData),
     (''employee_id'', employeeId modifyData),
     (''delete_minutes'', []),
     (''time'', convertTimeFormat time'),
     (''group_id'', groupId),
     (''notice'', notesValue),
     (''_'', [])]"

definition insert_request :: "(string \<times> string) list \<Rightarrow> (string \<times> string) list \<Rightarrow> request" where
  "insert_request hdrs body =
    \<lparr> url = SSL_BASE_URL @ ''/employee/adit/insert/'',
      http_method = ''POST'',
      headers = obj_update
                  (obj_update
                    (obj_update hdrs ''Content-Type'' ''application/x-www-form-urlencoded; charset=UTF-8'')
                    ''Accept'' ''text/javascript, text/html, application/xml, text/xml, */*'')
                  ''X-Requested-With'' ''XMLHttpRequest'',
      form = Some body \<rparr>"

text \<open>
  What follows a clock request: \<^verbatim>\<open>response.ok\<close>, then \<^verbatim>\<open>response.json()\<close>, then
  \<^verbatim>\<open>result.result !== 1\<close>. Reading \<^verbatim>\<open>result\<close> of \<^verbatim>\<open>null\<close> is a \<^verbatim>\<open>TypeError\<close>; of a
  value that is not an object it is \<^verbatim>\<open>undefined\<close>; of an object with a repeated key the
  last one counts. A JSON number is an integer here: a fractional number behaves as any
  value other than 1.
\<close>

fun result_of :: "json \<Rightarrow> error + json option" where
  "result_of JNull = Inl TypeError"
| "result_of (JObject kvs) = Inr (map_of (rev kvs) ''result'')"
| "result_of j = Inr None"

definition check_clock_response :: "clock_step \<Rightarrow> response \<Rightarrow> error + unit" where
  "check_clock_response step resp =
    (if \<not> ok resp then Inl (ClockFailed step (BadStatus (status_code resp) (statusText resp)))
     else (case body_json resp of
        None \<Rightarrow> Inl JsonSyntaxError
      | Some j \<Rightarrow>
         (case result_of j of
            Inl err \<Rightarrow> Inl err
          | Inr r \<Rightarrow> if r \<noteq> Some (JNumber 1) then Inl (ClockFailed step (BadResult j)) else Inr ())))"

definition clockInOut :: "env \<Rightarrow> js_date \<Rightarrow> clock_input \<Rightarrow> world \<Rightarrow> (error + unit) \<times> world" where
  "clockInOut e date' input w =
    (let clockInTime' = clockInTime_of input;
         clockOutTimeValue = clockOutTime_of input;
         spotNameOrIdValue = spotNameOrId_of input;
         notesValue = notes_of input;
         year' = getFullYear date';
         month' = getMonth date' + 1;
         day' = getDate date'
     in case getModifyPageData e year' month' day' w of
          (Inl err, w1) \<Rightarrow> (Inl err, w1)
        | (Inr modifyData, w1) \<Rightarrow>
           (let validation = validateClockingSupport modifyData in
            if \<not> supported validation then (Inl (ClockingNotSupported (missingFields validation)), w1)
            else (case resolve_spot (platform e) (availableSpots modifyData) spotNameOrIdValue of
               Inl err \<Rightarrow> (Inl err, w1)
             | Inr groupId \<Rightarrow>
                if notesValue = [] then (Inl NotesRequired, w1)
                else (case getDefaultHeaders e True w1 of
                   (Inl err, w2) \<Rightarrow> (Inl err, w2)
                 | (Inr hdrs, w2) \<Rightarrow>
                    (case fetch e (insert_request hdrs
                             (insert_form modifyData year' month' day' clockInTime' groupId notesValue)) w2 of
                       (Inl err, w3) \<Rightarrow> (Inl err, w3)
                     | (Inr clockInResponse, w3) \<Rightarrow>
                        (case check_clock_response ClockIn clockInResponse of
                           Inl err \<Rightarrow> (Inl err, w3)
                         | Inr u \<Rightarrow>
                            (case fetch e (insert_request hdrs
                                     (insert_form modifyData year' month' day' clockOutTimeValue groupId notesValue)) w3 of
                               (Inl err, w4) \<Rightarrow> (Inl err, w4)
                             | (Inr clockOutResponse, w4) \<Rightarrow>
                                (case check_clock_response ClockOut clockOutResponse of
                                   Inl err \<Rightarrow> (Inl err, w4)
                                 | Inr u' \<Rightarrow> (Inr (), w4)))))))))"

section \<open>src/lib/api.ts: the attendance parser\<close>

record AttendanceResponse =
  entries :: "AttendanceEntry list"
  year :: int
  month :: int

text \<open>\<^verbatim>\<open>s.trim() || undefined\<close>.\<close>

definition trimmed :: "string \<Rightarrow> string option" where
  "trimmed s = (if js_trim s = [] then None else Some (js_trim s))"

text \<open>
  \<^verbatim>\<open>/(\d{2})\/(\d{2})\(([^)]+)\)/\<close>: the first place of the text where two digits, a
  slash, two digits and a parenthesis with a non-empty content stand; the three groups.
\<close>

fun match_date_here :: "string \<Rightarrow> (string \<times> string \<times> string) option" where
  "match_date_here (a # b # s # c # d # p # rest) =
     (if is_digit a \<and> is_digit b \<and> s = CHR ''/'' \<and> is_digit c \<and> is_digit d \<and> p = CHR ''(''
         \<and> takeWhile (\<lambda>x. x \<noteq> CHR '')'') rest \<noteq> []
         \<and> dropWhile (\<lambda>x. x \<noteq> CHR '')'') rest \<noteq> []
      then Some ([a, b], [c, d], takeWhile (\<lambda>x. x \<noteq> CHR '')'') rest)
      else None)"
| "match_date_here s = None"

fun match_date :: "string \<Rightarrow> (string \<times> string \<times> string) option" where
  "match_date [] = None"
| "match_date (c # cs) =
     (case match_date_here (c # cs) of Some m \<Rightarrow> Some m | None \<Rightarrow> match_date cs)"

text \<open>\<^verbatim>\<open>String(n).padStart(2, "0")\<close>.\<close>

definition padStart2 :: "string \<Rightarrow> string" where
  "padStart2 s = replicate (2 - length s) (CHR ''0'') @ s"

text \<open>
  \<^verbatim>\<open>/\b([A-Z]{1,3})\b/g\<close>: the maximal runs of word characters of the text that are
  one to three capital letters.
\<close>

function word_runs :: "string \<Rightarrow> string list" where
  "word_runs [] = []"
| "word_runs (c # cs) =
     (if is_word_char c
      then (c # takeWhile is_word_char cs) # word_runs (dropWhile is_word_char cs)
      else word_runs cs)"
  by pat_completeness auto
termination
  by (relation "measure length") (auto simp: length_dropWhile_le less_Suc_eq_le)

definition is_status_code :: "string \<Rightarrow> bool" where
  "is_status_code s = (1 \<le> length s \<and> length s \<le> 3 \<and> list_all is_upper s)"

definition push_new :: "string list \<Rightarrow> string \<Rightarrow> string list" where
  "push_new st code = (if code \<noteq> [] \<and> code \<notin> set st then st @ [code] else st)"

text \<open>
  The status codes of the last cell, in the three stages of \<^verbatim>\<open>parseAttendanceRow\<close>:
  the bold font tags, the link, and when both gave nothing the text of the cell.
\<close>

definition row_status :: "platform \<Rightarrow> elem \<Rightarrow> string list" where
  "row_status p statusCell =
    (let st1 = concat (map (\<lambda>font. let statusText' = js_trim (elem_text p font)
                                     in if statusText' \<noteq> [] then [statusText'] else [])
                           (querySelectorAll p statusCell
                              (TagAttrContains ''font'' ''style'' ''font-weight: bold'')));
         st2 = (case querySelector p statusCell (Tag ''a'') of
                  None \<Rightarrow> st1
                | Some statusLink \<Rightarrow>
                   (case querySelector p statusLink (Tag ''font'') of
                      Some linkFont \<Rightarrow> push_new st1 (js_trim (elem_text p linkFont))
                    | None \<Rightarrow>
                       (let linkText = js_trim (elem_text p statusLink)
                        in if is_status_code linkText then push_new st1 linkText else st1)))
     in if length st2 = 0
        then foldl (\<lambda>st m. push_new st (js_trim m)) st2
               (filter is_status_code (word_runs (js_trim (elem_text p statusCell))))
        else st2)"

text \<open>
  \<^verbatim>\<open>parseAttendanceRow\<close>; \<open>None\<close> is \<^verbatim>\<open>null\<close>. The diagnostic \<^verbatim>\<open>console.debug\<close> calls,
  and the values computed only for them, are left out: they do not change the result.
\<close>

definition parseAttendanceRow :: "platform \<Rightarrow> elem \<Rightarrow> int \<Rightarrow> int \<Rightarrow> AttendanceEntryRaw option" where
  "parseAttendanceRow p row year' month' =
    (let cells = querySelectorAll p row (Tag ''td'') in
     if length cells < 11 then None
     else (let isPending' = classList_contains row ''jbc-table-warning'' in
       case querySelector p (cells ! 0) (Tag ''a'') of
         None \<Rightarrow> None
       | Some dateLink \<Rightarrow>
          (case match_date (js_trim (elem_text p dateLink)) of
             None \<Rightarrow> None
           | Some (g1, g2, g3) \<Rightarrow>
              (let day' = int (read_nat g2);
                   statusCell = cells ! 10
               in Some \<lparr> r_date = show_int year' @ ''-'' @ padStart2 (show_int month') @ ''-''
                                   @ padStart2 (show_int day'),
                          r_dayOfWeek = js_trim g3,
                          r_holidayType = trimmed (elem_text p (cells ! 1)),
                          r_shiftTime = trimmed (elem_text p (cells ! 2)),
                          r_clockIn = trimmed (elem_text p (cells ! 3)),
                          r_clockOut = trimmed (elem_text p (cells ! 4)),
                          r_workingHours = trimmed (elem_text p (cells ! 5)),
                          r_offShiftWorkingHours = trimmed (elem_text p (cells ! 6)),
                          r_overtime = trimmed (elem_text p (cells ! 7)),
                          r_nightShift = trimmed (elem_text p (cells ! 8)),
                          r_break = trimmed (elem_text p (cells ! 9)),
                          r_status = row_status p statusCell,
                          r_statusTooltip =
                            (case querySelector p statusCell (AttrEq ''data-toggle'' ''tooltip'') of
                               None \<Rightarrow> None
                             | Some tooltipDiv \<Rightarrow>
                                (if truthy (getAttribute tooltipDiv ''title'')
                                 then getAttribute tooltipDiv ''title'' else None)),
                          r_isPending = Some isPending' \<rparr>))))"

definition parseAttendanceHtml :: "platform \<Rightarrow> string \<Rightarrow> int \<Rightarrow> int \<Rightarrow> AttendanceResponse" where
  "parseAttendanceHtml p html year' month' =
    (let root = (parse p html, []) in
     case querySelector p root (Tag ''tbody'') of
       None \<Rightarrow> \<lparr> entries = [], year = year', month = month' \<rparr>
     | Some tbody \<Rightarrow>
        (let rawEntries = concat (map (\<lambda>row. case parseAttendanceRow p row year' month' of
                                              None \<Rightarrow> [] | Some entry \<Rightarrow> [entry])
                                      (querySelectorAll p tbody (Tag ''tr'')))
         in \<lparr> entries = map transformAttendanceEntry rawEntries, year = year', month = month' \<rparr>))"

subsection \<open>Cookie inputs that are read as they are written\<close>
















subsection \<open>A stored session\<close>

text \<open>
  The three keys hold a session that \<^verbatim>\<open>getStoredSession\<close> can read: an identifier
  \<open>s\<close>, a cookie string \<open>c\<close>, both non-empty, and an expiry string that
  \<^verbatim>\<open>parseInt\<close> reads as the timestamp \<open>x\<close>.
\<close>

definition stored_session :: "world \<Rightarrow> string \<Rightarrow> string \<Rightarrow> int \<Rightarrow> bool" where
  "stored_session w s c x =
    (storage w SESSION_COOKIE = Some s \<and> s \<noteq> []
     \<and> storage w SESSION_COOKIES = Some c \<and> c \<noteq> []
     \<and> (case storage w SESSION_EXPIRY of
           None \<Rightarrow> False
         | Some str \<Rightarrow> str \<noteq> [] \<and> parseInt10 str = Some x))"

subsection \<open>Network activity of a call\<close>

text \<open>
  The events a call adds to the activity, and among them the \<^verbatim>\<open>POST\<close> requests with
  their answers. The only \<^verbatim>\<open>POST\<close> the modelled functions issue themselves is the one
  to \<^verbatim>\<open>/employee/adit/insert/\<close>.
\<close>

definition new_events :: "world \<Rightarrow> world \<Rightarrow> event list" where
  "new_events w w' = drop (length (trace w)) (trace w')"

fun post_exchanges :: "event list \<Rightarrow> (request \<times> (error + response)) list" where
  "post_exchanges [] = []"
| "post_exchanges (Exchange req res # evs) =
     (if http_method req = ''POST'' then (req, res) # post_exchanges evs else post_exchanges evs)"
| "post_exchanges (LoginFlow em pw res # evs) = post_exchanges evs"

text \<open>A call extends the activity by events among which there is no \<^verbatim>\<open>POST\<close>.\<close>

definition quiet_step :: "world \<Rightarrow> world \<Rightarrow> bool" where
  "quiet_step w w' = (\<exists>evs. trace w' = trace w @ evs \<and> post_exchanges evs = [])"

subsection \<open>Example inputs\<close>

text \<open>
  A modification form with two time inputs, as the parser reads
  \<^verbatim>\<open><form><label for="a">Clock in time</label><input id="a" name="clock_in_time" type="text">\<close>
  \<^verbatim>\<open><label for="b">Clocking out time</label><input id="b" name="clock_out_time" type="text"></form>\<close>.
\<close>

definition two_time_inputs_html :: string where
  "two_time_inputs_html =
    ''<form><label for=\"a\">Clock in time</label><input id=\"a\" name=\"clock_in_time\" type=\"text\">''
    @ ''<label for=\"b\">Clocking out time</label><input id=\"b\" name=\"clock_out_time\" type=\"text\"></form>''"

definition two_time_inputs :: node where
  "two_time_inputs =
    Element [] [] []
      [Element ''form'' [] []
        [Element ''label'' [(''for'', ''a'')] [] [TextNode ''Clock in time''],
         Element ''input'' [(''id'', ''a''), (''name'', ''clock_in_time''), (''type'', ''text'')] [] [],
         Element ''label'' [(''for'', ''b'')] [] [TextNode ''Clocking out time''],
         Element ''input'' [(''id'', ''b''), (''name'', ''clock_out_time''), (''type'', ''text'')] [] []]]"

definition two_time_fields :: "ClockField list" where
  "two_time_fields =
    [\<lparr> name = ''clockInTime'', ftype = TimeType, required = False, label = ''Clock in time'',
       options = None, defaultValue = None \<rparr>,
     \<lparr> name = ''clockInTime'', ftype = TimeType, required = False, label = ''Clocking out time'',
       options = None, defaultValue = None \<rparr>,
     \<lparr> name = ''clockOutTime'', ftype = TimeType, required = False, label = ''Clock Out Time'',
       options = None, defaultValue = Some ''19:00'' \<rparr>]"

definition spot_field :: ClockField where
  "spot_field = \<lparr> name = ''group_id'', ftype = SelectType, required = True,
                  label = ''Clock-in/out Spot'',
                  options = Some [(''1'', ''Office''), (''2'', ''Home'')],
                  defaultValue = Some ''1'' \<rparr>"

definition notes_field :: ClockField where
  "notes_field = \<lparr> name = ''notice'', ftype = TextType, required = True, label = ''Notes'',
                   options = None, defaultValue = None \<rparr>"

definition in_time_field :: ClockField where
  "in_time_field = \<lparr> name = ''clockInTime'', ftype = TimeType, required = False,
                     label = ''Clock in time'', options = None, defaultValue = None \<rparr>"

definition in_time_field_twin :: ClockField where
  "in_time_field_twin = \<lparr> name = ''clockInTime'', ftype = TextType, required = True,
                          label = ''Clocking out time'', options = None, defaultValue = None \<rparr>"

text \<open>A collation for the examples: names compared byte by byte.\<close>

definition byte_order :: "string \<Rightarrow> string" where
  "byte_order s = s"

text \<open>
  A portal for the examples. The clock reads 1762128000000 ms and advances by 1 ms per
  reading; every \<^verbatim>\<open>GET\<close> is answered with the modification page of one day, every
  \<^verbatim>\<open>POST\<close> with the given reply; the parser reads the page as the tree below.
\<close>

definition modify_page_html :: string where
  "modify_page_html =
    ''<form><input type=\"hidden\" name=\"token\" value=\"tok123\">''
    @ ''<input type=\"hidden\" name=\"client_id\" value=\"77\">''
    @ ''<input type=\"hidden\" name=\"employee_id\" value=\"4242\">''
    @ ''<select name=\"group_id\"><option value=\"1\">Office</option><option value=\"2\">Home</option></select>''
    @ ''<textarea name=\"notice\"></textarea></form>''"

definition modify_page :: node where
  "modify_page =
    Element [] [] []
      [Element ''form'' [] []
        [Element ''input'' [(''type'', ''hidden''), (''name'', ''token''), (''value'', ''tok123'')] [] [],
         Element ''input'' [(''type'', ''hidden''), (''name'', ''client_id''), (''value'', ''77'')] [] [],
         Element ''input'' [(''type'', ''hidden''), (''name'', ''employee_id''), (''value'', ''4242'')] [] [],
         Element ''select'' [(''name'', ''group_id'')] []
           [Element ''option'' [(''value'', ''1'')] [] [TextNode ''Office''],
            Element ''option'' [(''value'', ''2'')] [] [TextNode ''Home'']],
         Element ''textarea'' [(''name'', ''notice'')] [] []]]"

text \<open>
  A platform for the examples: the parser reads every page as the given tree, no
  character reference is decoded, no letter beyond ASCII changes its case, and the
  selector engine rejects every selector it is asked about.
\<close>

definition reading :: "node \<Rightarrow> platform" where
  "reading tree =
    \<lparr> parse = (\<lambda>html. tree),
      entities = (\<lambda>s. s),
      lowerCase = (\<lambda>s. s),
      selectText = (\<lambda>text root. Inl (''Unmatched selector: '' @ text)) \<rparr>"

text \<open>The modification page with one more input, whose \<^verbatim>\<open>id\<close> is \<^verbatim>\<open>a"b\<close>.\<close>

definition quoted_id_page :: node where
  "quoted_id_page =
    Element [] [] []
      [Element ''form'' [] []
        [Element ''input'' [(''type'', ''hidden''), (''name'', ''token''), (''value'', ''tok123'')] [] [],
         Element ''input'' [(''type'', ''hidden''), (''name'', ''client_id''), (''value'', ''77'')] [] [],
         Element ''input'' [(''type'', ''hidden''), (''name'', ''employee_id''), (''value'', ''4242'')] [] [],
         Element ''select'' [(''name'', ''group_id'')] []
           [Element ''option'' [(''value'', ''1'')] [] [TextNode ''Office''],
            Element ''option'' [(''value'', ''2'')] [] [TextNode ''Home'']],
         Element ''input'' [(''id'', ''a\"b''), (''name'', ''memo''), (''type'', ''text'')] [] [],
         Element ''textarea'' [(''name'', ''notice'')] [] []]]"

definition page_response :: response where
  "page_response = \<lparr> status_code = 200, statusText = ''OK'', body_text = modify_page_html,
                      body_json = None \<rparr>"

definition rejected_reply :: response where
  "rejected_reply = \<lparr> status_code = 200, statusText = ''OK'', body_text = ''{\"result\":0}'',
                       body_json = Some (JObject [(''result'', JNumber 0)]) \<rparr>"

definition portal_on :: "node \<Rightarrow> Preferences \<Rightarrow> response \<Rightarrow> env" where
  "portal_on tree p reply =
    \<lparr> prefs = p,
      now = (\<lambda>i. 1762128000000 + int i),
      respond = (\<lambda>history req. if http_method req = ''GET'' then Inr page_response else Inr reply),
      login_flow = (\<lambda>history em pw. Inr (''fresh456'', ''locale=en; sid=fresh456'')),
      platform = reading tree \<rparr>"

definition portal_env :: "Preferences \<Rightarrow> response \<Rightarrow> env" where
  "portal_env p reply = portal_on modify_page p reply"

definition no_credentials :: Preferences where
  "no_credentials = \<lparr> email = [], password = [], autoReloginOnRefreshFailure = False \<rparr>"

definition with_credentials :: Preferences where
  "with_credentials = \<lparr> email = ''user@example.com'', password = ''secret'',
                         autoReloginOnRefreshFailure = True \<rparr>"

text \<open>A store holding a session \<open>abc123\<close> that expires at the given time.\<close>

definition session_world :: "string \<Rightarrow> world" where
  "session_world expiryStr =
    \<lparr> storage = [SESSION_COOKIE \<mapsto> ''abc123'', SESSION_COOKIES \<mapsto> ''locale=en; sid=abc123'',
                  SESSION_EXPIRY \<mapsto> expiryStr],
      ticks = 0, trace = [] \<rparr>"

definition monday :: js_date where
  "monday = \<lparr> getFullYear = 2025, getMonth = 10, getDate = 3 \<rparr>"

text \<open>
  The run of the examples: the session expires an hour after the first clock reading,
  the page of 3 November 2025 is fetched, and, when notes are given, the clock-in
  request for 10:00 at the spot "Office" is sent.
\<close>

definition office_headers :: "(string \<times> string) list" where
  "office_headers =
    [(''Accept'', ''text/html,application/xhtml+xml,application/xml;q=0.9,*/*;q=0.8''),
     (''Accept-Language'', ''en-US,en;q=0.9''),
     (''Cookie'', ''locale=en; sid=abc123; employee_language=en; __bd_fedee=1''),
     (''Referer'', ''https://ssl.jobcan.jp/employee''),
     (''User-Agent'', USER_AGENT)]"

definition page_request :: request where
  "page_request = \<lparr> url = ''https://ssl.jobcan.jp/employee/adit/modify?year=2025&month=11&day=3'',
                     http_method = ''GET'', headers = office_headers, form = None \<rparr>"

definition page_world :: world where
  "page_world = (session_world ''1762131600000'')
     \<lparr>ticks := 3, trace := [Exchange page_request (Inr page_response)]\<rparr>"

definition office_page :: ModifyPageData where
  "office_page = \<lparr> token = ''tok123'', clientId = ''77'', employeeId = ''4242'',
             availableSpots = [(''1'', ''Office''), (''2'', ''Home'')],
             formFields =
               [spot_field,
                \<lparr> name = ''notice'', ftype = TextType, required = False, label = ''notice'',
                  options = None, defaultValue = None \<rparr>,
                \<lparr> name = ''clockInTime'', ftype = TimeType, required = False,
                  label = ''Clock In Time'', options = None, defaultValue = Some ''10:00'' \<rparr>,
                \<lparr> name = ''clockOutTime'', ftype = TimeType, required = False,
                  label = ''Clock Out Time'', options = None, defaultValue = Some ''19:00'' \<rparr>] \<rparr>"

definition clock_in_request :: request where
  "clock_in_request =
    insert_request office_headers (insert_form office_page 2025 11 3 ''10:00'' ''1'' ''Remote work'')"

definition rejected_world :: world where
  "rejected_world = (session_world ''1762131600000'')
     \<lparr>ticks := 4, trace := [Exchange page_request (Inr page_response),
                            Exchange clock_in_request (Inr rejected_reply)]\<rparr>"

definition without_notes :: clock_input where
  "without_notes = Individual ''10:00'' (Some ''19:00'') (Some ''Office'') None"

definition with_notes :: clock_input where
  "with_notes = Individual ''10:00'' (Some ''19:00'') (Some ''Office'') (Some ''Remote work'')"

definition blank_notice :: clock_input where
  "blank_notice = FieldMap [''clockInTime'' \<mapsto> ''09:30'', ''notice'' \<mapsto> []]"

section \<open>Attendance status derivation\<close>

lemma truthy_present: "truthy v = present v"
  by (cases v) (simp_all add: truthy_def present_def)

lemma truthy_flag_Some_True: "truthy_flag v = (v = Some True)"
  by (cases v) (simp_all add: truthy_flag_def)

text \<open>
  Claim C1, as stated, fails on its last sentence: a row with the pending flag, a holiday
  label and all three time fields derives \<open>Pending\<close>, not \<open>HolidayWork\<close>.
\<close>

theorem C1_pending_holiday_counterexample:
  "present (r_holidayType pending_holiday_work)
   \<and> present (r_clockIn pending_holiday_work)
   \<and> present (r_clockOut pending_holiday_work)
   \<and> present (r_workingHours pending_holiday_work)
   \<and> status (transformAttendanceEntry pending_holiday_work) = Pending
   \<and> status (transformAttendanceEntry pending_holiday_work) \<noteq> HolidayWork"
  by (simp add: pending_holiday_work_def transformAttendanceEntry_def present_def
      truthy_def truthy_flag_def)

text \<open>
  Claim C1, amended: for every raw attendance entry the derived status is the one of the
  first rule of the precedence (pending flag, holiday and fully logged, fully logged,
  the codes A, L, PV, SH in this order, holiday label) whose condition holds, and
  \<open>Unlogged\<close> when none holds; the flags \<open>isLogged\<close> and \<open>isHoliday\<close> are the
  fully-logged and holiday-present tests. In particular a holiday entry with all three
  time fields present whose pending flag is not set derives \<open>HolidayWork\<close>, whatever its
  raw status codes are.
\<close>

theorem C1_status_precedence:
  "status (transformAttendanceEntry raw) = first_match (status_precedence raw) Unlogged
   \<and> isLogged (transformAttendanceEntry raw) = fully_logged raw
   \<and> isHoliday (transformAttendanceEntry raw) = present (r_holidayType raw)
   \<and> (r_isPending raw \<noteq> Some True \<and> present (r_holidayType raw) \<and> fully_logged raw
        \<longrightarrow> status (transformAttendanceEntry raw) = HolidayWork)"
  by (simp add: transformAttendanceEntry_def status_precedence_def fully_logged_def
      truthy_present truthy_flag_Some_True Let_def)

theorem C1_status_precedence_witness:
  "r_isPending holiday_work_with_codes \<noteq> Some True
   \<and> present (r_holidayType holiday_work_with_codes)
   \<and> fully_logged holiday_work_with_codes
   \<and> r_status holiday_work_with_codes = [''A'', ''PV'']
   \<and> status (transformAttendanceEntry holiday_work_with_codes) = HolidayWork"
proof -
  have pre: "r_isPending holiday_work_with_codes \<noteq> Some True
      \<and> present (r_holidayType holiday_work_with_codes)
      \<and> fully_logged holiday_work_with_codes"
    by (simp add: holiday_work_with_codes_def pending_holiday_work_def present_def fully_logged_def)
  have codes: "r_status holiday_work_with_codes = [''A'', ''PV'']"
    by (simp add: holiday_work_with_codes_def)
  from C1_status_precedence [of holiday_work_with_codes] pre codes show ?thesis
    by blast
qed

section \<open>Decimal numerals\<close>

lemma digit_val_digit_char: "d < 10 \<Longrightarrow> digit_val (digit_char d) = d"
proof -
  assume "d < 10"
  then have "d \<in> {0, 1, 2, 3, 4, 5, 6, 7, 8, 9}" by auto
  then show ?thesis
    by (auto simp: digit_val_def digit_char_def)
qed

lemma read_nat_snoc: "read_nat (s @ [c]) = 10 * read_nat s + digit_val c"
  by (simp add: read_nat_def)

lemma read_show_nat: "read_nat (show_nat n) = n"
proof (induction n rule: show_nat.induct)
  case (1 n)
  show ?case
  proof (cases "n < 10")
    case True
    then show ?thesis
      by (subst show_nat.simps) (simp add: read_nat_def digit_val_digit_char)
  next
    case False
    with 1 have "read_nat (show_nat (n div 10)) = n div 10" by simp
    with False show ?thesis
      by (subst show_nat.simps) (simp add: read_nat_snoc digit_val_digit_char)
  qed
qed

lemma show_nat_inj: "show_nat a = show_nat b \<Longrightarrow> a = b"
  by (metis read_show_nat)

section \<open>Form field discovery\<close>

lemma two_time_inputs_fields:
  "parseClockFields_root p (two_time_inputs, []) = Inr two_time_fields"
  by code_simp

text \<open>
  Claim C5 (a defect of the code): the names of the fields \<^verbatim>\<open>parseClockFields\<close>
  returns are meant to be pairwise distinct, and the set \<^verbatim>\<open>processedNames\<close> is there
  for that; but it records the name attribute of the input, not the name of the field
  that \<^verbatim>\<open>parseTimeField\<close> emits. On the form with the two time inputs both inputs
  become a field named \<open>clockInTime\<close>: the first by its name attribute, the second
  because its label "Clocking out time" contains "in". This is so on every platform
  whose parser reads the form as the tree of the example.
\<close>

theorem C5_duplicate_clock_in_time:
  "parseClockFields (p\<lparr>parse := \<lambda>html. two_time_inputs\<rparr>) two_time_inputs_html
     = Inr two_time_fields
   \<and> map name two_time_fields = [''clockInTime'', ''clockInTime'', ''clockOutTime'']
   \<and> \<not> distinct (map name two_time_fields)"
  by (simp add: parseClockFields_def two_time_inputs_fields two_time_fields_def)

section \<open>The schema fingerprint\<close>

lemma join_Cons: "join sep (x # xs) = (if xs = [] then x else x @ sep @ join sep xs)"
  by (cases xs) simp_all

text \<open>Two lists of segments that differ in one place are joined to different strings.\<close>

lemma join_one_diff:
  "join sep (A @ x # B) = join sep (A @ x' # B) \<Longrightarrow> x = x'"
proof (induction A)
  case Nil
  then show ?case by (simp add: join_Cons split: if_splits)
next
  case (Cons a A)
  then show ?case by (simp add: join_Cons)
qed

text \<open>
  The place where the stable sort puts an element depends on its key only: replacing
  an element by one of the same key replaces it in the sorted list, where it stands.
\<close>

lemma insort_key_same_key:
  assumes "k f = k f'"
  shows "\<exists>P Q. insort_key k f T = P @ f # Q \<and> insort_key k f' T = P @ f' # Q"
proof (induction T)
  case Nil
  show ?case by (rule exI [of _ "[]"]) simp
next
  case (Cons t T)
  then obtain P Q where PQ: "insort_key k f T = P @ f # Q" "insort_key k f' T = P @ f' # Q"
    by blast
  show ?case
  proof (cases "k f \<le> k t")
    case True
    with assms have "insort_key k f (t # T) = [] @ f # (t # T)"
      "insort_key k f' (t # T) = [] @ f' # (t # T)" by simp_all
    then show ?thesis by blast
  next
    case False
    with assms PQ have "insort_key k f (t # T) = (t # P) @ f # Q"
      "insort_key k f' (t # T) = (t # P) @ f' # Q" by simp_all
    then show ?thesis by blast
  qed
qed

lemma insort_key_beside:
  assumes "k f = k f'"
  shows "\<exists>P' Q'. insort_key k x (P @ f # Q) = P' @ f # Q'
               \<and> insort_key k x (P @ f' # Q) = P' @ f' # Q'"
proof (induction P)
  case Nil
  show ?case
  proof (cases "k x \<le> k f")
    case True
    with assms have "insort_key k x ([] @ f # Q) = [x] @ f # Q"
      "insort_key k x ([] @ f' # Q) = [x] @ f' # Q" by simp_all
    then show ?thesis by blast
  next
    case False
    with assms have "insort_key k x ([] @ f # Q) = [] @ f # insort_key k x Q"
      "insort_key k x ([] @ f' # Q) = [] @ f' # insort_key k x Q" by simp_all
    then show ?thesis by blast
  qed
next
  case (Cons p P)
  then obtain P' Q' where PQ: "insort_key k x (P @ f # Q) = P' @ f # Q'"
    "insort_key k x (P @ f' # Q) = P' @ f' # Q'" by blast
  show ?case
  proof (cases "k x \<le> k p")
    case True
    then have "insort_key k x ((p # P) @ f # Q) = (x # p # P) @ f # Q"
      "insort_key k x ((p # P) @ f' # Q) = (x # p # P) @ f' # Q" by simp_all
    then show ?thesis by blast
  next
    case False
    with PQ have "insort_key k x ((p # P) @ f # Q) = (p # P') @ f # Q'"
      "insort_key k x ((p # P) @ f' # Q) = (p # P') @ f' # Q'" by simp_all
    then show ?thesis by blast
  qed
qed

lemma sort_key_same_key:
  assumes "k f = k f'"
  shows "\<exists>P Q. sort_key k (xs @ f # ys) = P @ f # Q \<and> sort_key k (xs @ f' # ys) = P @ f' # Q"
proof (induction xs)
  case Nil
  show ?case using assms insort_key_same_key [of k f f' "sort_key k ys"] by simp
next
  case (Cons x xs)
  then obtain P Q where "sort_key k (xs @ f # ys) = P @ f # Q"
    "sort_key k (xs @ f' # ys) = P @ f' # Q" by blast
  then show ?case using assms insort_key_beside [of k f f' x P Q] by simp
qed

lemma schema_changes:
  assumes nm: "name f' = name f" and sg: "field_signature f' \<noteq> field_signature f"
  shows "generateFieldSchema collate (xs @ f' # ys) \<noteq> generateFieldSchema collate (xs @ f # ys)"
proof -
  from nm have "collate (name f) = collate (name f')" by simp
  with sort_key_same_key [of "\<lambda>f. collate (name f)" f f' xs ys]
  obtain P Q where
    "sort_key (\<lambda>f. collate (name f)) (xs @ f # ys) = P @ f # Q"
    "sort_key (\<lambda>f. collate (name f)) (xs @ f' # ys) = P @ f' # Q" by blast
  then show ?thesis
    using sg join_one_diff [of "''|''" "map field_signature P" "field_signature f'"
        "map field_signature Q" "field_signature f"]
    by (auto simp: generateFieldSchema_def)
qed

lemma schema_changes_at:
  assumes "i < length fs" and "name f' = name (fs ! i)"
    and "field_signature f' \<noteq> field_signature (fs ! i)"
  shows "generateFieldSchema collate (fs[i := f']) \<noteq> generateFieldSchema collate fs"
proof -
  from assms(1) have "fs = take i fs @ fs ! i # drop (Suc i) fs"
    by (simp add: id_take_nth_drop)
  moreover from assms(1) have "fs[i := f'] = take i fs @ f' # drop (Suc i) fs"
    by (simp add: upd_conv_take_nth_drop)
  ultimately show ?thesis
    using schema_changes [OF assms(2) assms(3), of collate "take i fs" "drop (Suc i) fs"]
    by simp
qed

lemma signature_required:
  "field_signature (f\<lparr>required := \<not> required f\<rparr>) \<noteq> field_signature f"
  by (simp add: field_signature_def)

lemma signature_type:
  "t \<noteq> ftype f \<Longrightarrow> field_signature (f\<lparr>ftype := t\<rparr>) \<noteq> field_signature f"
  by (cases t; cases "ftype f") (simp_all add: field_signature_def)

lemma signature_options:
  "ftype f = SelectType \<Longrightarrow> options f = Some os \<Longrightarrow> length os' \<noteq> length os \<Longrightarrow>
   field_signature (f\<lparr>options := Some os'\<rparr>) \<noteq> field_signature f"
  by (auto simp add: field_signature_def dest: show_nat_inj)

text \<open>Lists with pairwise distinct keys are sorted alike, whatever their order.\<close>

lemma sort_key_perm:
  assumes d: "distinct (map k xs)" and p: "mset ys = mset xs"
  shows "sort_key k ys = sort_key k xs"
proof -
  from p have s: "set ys = set xs" by (rule mset_eq_setD)
  from p have "mset (map k ys) = mset (map k xs)" by simp
  with d have d': "distinct (map k ys)" by (metis mset_eq_imp_distinct_iff)
  have "map k (sort_key k ys) = map k (sort_key k xs)"
  proof (rule sorted_distinct_set_unique)
    show "sorted (map k (sort_key k ys))" "sorted (map k (sort_key k xs))" by simp_all
    show "distinct (map k (sort_key k ys))" using d' by (simp add: distinct_map)
    show "distinct (map k (sort_key k xs))" using d by (simp add: distinct_map)
    show "set (map k (sort_key k ys)) = set (map k (sort_key k xs))" using s by simp
  qed
  moreover from d have "inj_on k (set (sort_key k ys) \<union> set (sort_key k xs))"
    using s by (simp add: distinct_map)
  ultimately show ?thesis by (simp add: inj_on_map_eq_map)
qed

text \<open>
  Claim C8, as stated, fails on lists in which two fields share a name: the sort
  compares names only and is stable, so two such fields keep their input order, and
  the fingerprint of the swapped list differs.
\<close>

theorem C8_duplicate_name_counterexample:
  "mset [in_time_field_twin, in_time_field] = mset [in_time_field, in_time_field_twin]
   \<and> generateFieldSchema byte_order [in_time_field, in_time_field_twin]
       = ''clockInTime:time:optional|clockInTime:text:required''
   \<and> generateFieldSchema byte_order [in_time_field_twin, in_time_field]
       = ''clockInTime:text:required|clockInTime:time:optional''
   \<and> generateFieldSchema byte_order [in_time_field_twin, in_time_field]
       \<noteq> generateFieldSchema byte_order [in_time_field, in_time_field_twin]"
  by (simp add: generateFieldSchema_def field_signature_def in_time_field_def
      in_time_field_twin_def byte_order_def)

text \<open>
  Claim C8, amended: on field lists whose names are pairwise distinct under the
  comparison of the sort, \<^verbatim>\<open>generateFieldSchema\<close> is order-independent: every
  permutation of such a list has the same fingerprint. And for every field list, with
  or without repeated names, changing one field's required flag, its type, or the
  number of options of a select field yields a different fingerprint.
\<close>

theorem C8_fingerprint:
  "(distinct (map (\<lambda>f. collate (name f)) fs) \<and> mset fs' = mset fs
      \<longrightarrow> generateFieldSchema collate fs' = generateFieldSchema collate fs)
   \<and> (i < length fs
      \<longrightarrow> generateFieldSchema collate (fs[i := (fs ! i)\<lparr>required := \<not> required (fs ! i)\<rparr>])
            \<noteq> generateFieldSchema collate fs)
   \<and> (i < length fs \<and> t \<noteq> ftype (fs ! i)
      \<longrightarrow> generateFieldSchema collate (fs[i := (fs ! i)\<lparr>ftype := t\<rparr>])
            \<noteq> generateFieldSchema collate fs)
   \<and> (i < length fs \<and> ftype (fs ! i) = SelectType \<and> options (fs ! i) = Some os
        \<and> length os' \<noteq> length os
      \<longrightarrow> generateFieldSchema collate (fs[i := (fs ! i)\<lparr>options := Some os'\<rparr>])
            \<noteq> generateFieldSchema collate fs)"
proof (intro conjI impI)
  assume "distinct (map (\<lambda>f. collate (name f)) fs) \<and> mset fs' = mset fs"
  then have "sort_key (\<lambda>f. collate (name f)) fs' = sort_key (\<lambda>f. collate (name f)) fs"
    by (simp add: sort_key_perm)
  then show "generateFieldSchema collate fs' = generateFieldSchema collate fs"
    by (simp add: generateFieldSchema_def)
next
  assume "i < length fs"
  then show "generateFieldSchema collate (fs[i := (fs ! i)\<lparr>required := \<not> required (fs ! i)\<rparr>])
      \<noteq> generateFieldSchema collate fs"
    by (rule schema_changes_at) (simp_all add: signature_required)
next
  assume "i < length fs \<and> t \<noteq> ftype (fs ! i)"
  then show "generateFieldSchema collate (fs[i := (fs ! i)\<lparr>ftype := t\<rparr>])
      \<noteq> generateFieldSchema collate fs"
    by (intro schema_changes_at) (simp_all add: signature_type)
next
  assume "i < length fs \<and> ftype (fs ! i) = SelectType \<and> options (fs ! i) = Some os
      \<and> length os' \<noteq> length os"
  then show "generateFieldSchema collate (fs[i := (fs ! i)\<lparr>options := Some os'\<rparr>])
      \<noteq> generateFieldSchema collate fs"
    by (intro schema_changes_at) (simp_all add: signature_options)
qed

theorem C8_fingerprint_witness:
  "generateFieldSchema byte_order [notes_field, in_time_field, spot_field]
     = generateFieldSchema byte_order [spot_field, notes_field, in_time_field]
   \<and> generateFieldSchema byte_order
        ([spot_field, notes_field, in_time_field][0 := spot_field\<lparr>required := False\<rparr>])
       \<noteq> generateFieldSchema byte_order [spot_field, notes_field, in_time_field]
   \<and> generateFieldSchema byte_order
        ([spot_field, notes_field, in_time_field][0 := spot_field\<lparr>ftype := TextType\<rparr>])
       \<noteq> generateFieldSchema byte_order [spot_field, notes_field, in_time_field]
   \<and> generateFieldSchema byte_order
        ([spot_field, notes_field, in_time_field][0 := spot_field\<lparr>options := Some [(''1'', ''Office'')]\<rparr>])
       \<noteq> generateFieldSchema byte_order [spot_field, notes_field, in_time_field]"
  using C8_fingerprint [of byte_order "[spot_field, notes_field, in_time_field]"
      "[notes_field, in_time_field, spot_field]" 0 TextType
      "[(''1'', ''Office''), (''2'', ''Home'')]" "[(''1'', ''Office'')]"]
  by (simp add: spot_field_def notes_field_def in_time_field_def byte_order_def)

section \<open>Cookie merging\<close>

lemmas cookie_eval =
  mergeCookies_def merge_header_def parseCookieString_def looks_like_set_cookie_def
  split_on_def assign_cookie_def obj_assign_def object_entries_def cookie_string_def
  is_array_index_def truthy_def is_digit_def read_nat_def digit_val_def

subsection \<open>White space\<close>





lemma white_space_bytes:
  "w \<in> set white_space \<Longrightarrow>
   w \<noteq> [] \<and> CHR '','' \<notin> set w \<and> CHR ''='' \<notin> set w \<and> CHR '';'' \<notin> set w"
  by (auto simp: white_space_def)

text \<open>A string that starts with no byte of a white-space character is not trimmed.\<close>

lemma lead_len_plain:
  assumes "c \<notin> set (map hd white_space)"
  shows "lead_len white_space (c # s) = 0"
proof -
  have "\<not> starts_with (c # s) w" if "w \<in> set white_space" for w
  proof (cases w)
    case Nil
    with that show ?thesis using white_space_bytes by blast
  next
    case (Cons p ps)
    with that assms have "p \<noteq> c" by force
    with Cons show ?thesis by simp
  qed
  then have "find (starts_with (c # s)) white_space = None"
    by (simp add: find_None_iff)
  then show ?thesis by (simp add: lead_len_def)
qed

lemma trimStart_plain: "c \<notin> set (map hd white_space) \<Longrightarrow> trimStart (c # s) = c # s"
  by (simp add: trimStart_def lead_len_plain)



lemma digit_plain: "is_digit c \<Longrightarrow> c \<notin> set (map hd white_space)"
  by (auto simp: is_digit_def white_space_def)

lemma trimStart_digit: "is_digit c \<Longrightarrow> trimStart (c # s) = c # s"
  by (rule trimStart_plain) (rule digit_plain)







subsection \<open>Splitting what was joined\<close>






subsection \<open>Assigning the pairs\<close>









subsection \<open>Set-Cookie headers\<close>

















subsection \<open>The object as a map\<close>










text \<open>
  White space is what \<^verbatim>\<open>trim\<close> and \<^verbatim>\<open>\s\<close> take it to be: a no-break space after a
  value is trimmed away, and a cookie that follows a comma and a no-break space is cut
  off from the attributes before it.
\<close>

lemma ex_no_break_space:
  "mergeCookies [Some (''a=1; path=/, b=x'' @ [CHR 0xC2, CHR 0xA0])] = ''a=1; b=x''"
  "mergeCookies [Some (''a=1; path=/,'' @ [CHR 0xC2, CHR 0xA0] @ ''z=9'')] = ''a=1; z=9''"
  by code_simp+






section \<open>The stored session\<close>

lemma storage_clearStoredSession:
  "storage (clearStoredSession w) k =
    (if k = SESSION_COOKIE \<or> k = SESSION_COOKIES \<or> k = SESSION_EXPIRY then None else storage w k)"
  by (simp add: clearStoredSession_def removeItem_def)

lemma trace_clearStoredSession: "trace (clearStoredSession w) = trace w"
  by (simp add: clearStoredSession_def removeItem_def)

lemma stored_session_ticks: "stored_session (w\<lparr>ticks := n\<rparr>) s c x = stored_session w s c x"
  by (simp add: stored_session_def)

text \<open>A stored session is read as it is while its expiry has not passed, and purged after.\<close>

lemma getStoredSession_fresh:
  assumes "stored_session w s c x" and "now e (ticks w) \<le> x"
  shows "getStoredSession e w
    = (Some \<lparr> sid = s, cookies = c, expiry = x \<rparr>, w\<lparr>ticks := Suc (ticks w)\<rparr>)"
  using assms
  by (auto simp: stored_session_def getStoredSession_def truthy_def date_now_def Let_def
      split: option.splits)

lemma getStoredSession_expired:
  assumes "stored_session w s c x" and "x < now e (ticks w)"
  shows "getStoredSession e w = (None, clearStoredSession (w\<lparr>ticks := Suc (ticks w)\<rparr>))"
  using assms
  by (auto simp: stored_session_def getStoredSession_def truthy_def date_now_def Let_def
      split: option.splits)

lemma ensureValidSession_fresh:
  assumes "stored_session w s c x" and "now e (ticks w) \<le> x"
    and "5 * 60 * 1000 \<le> x - now e (Suc (ticks w))"
  shows "ensureValidSession e w = (Inr s, w\<lparr>ticks := Suc (Suc (ticks w))\<rparr>)"
  using assms(3) getStoredSession_fresh [OF assms(1) assms(2)]
  by (simp add: ensureValidSession_def date_now_def Let_def)

lemma getSessionCookies_fresh:
  assumes "stored_session w s c x" and "now e (ticks w) \<le> x"
  shows "getSessionCookies e w
    = (Inr (mergeCookies [Some c, Some ''employee_language=en; __bd_fedee=1'']),
       w\<lparr>ticks := Suc (ticks w)\<rparr>)"
  using getStoredSession_fresh [OF assms]
  by (simp add: getSessionCookies_def)

lemma clearStoredSession_storage:
  "storage (clearStoredSession w)
     = (storage w)(SESSION_COOKIE := None, SESSION_COOKIES := None, SESSION_EXPIRY := None)"
  by (simp add: clearStoredSession_def removeItem_def)

text \<open>
  Without credentials for a login, \<^verbatim>\<open>ensureValidSession\<close> decides on the stored
  session alone, and changes the store only where \<^verbatim>\<open>getStoredSession\<close> purges it.
\<close>

lemma ensureValidSession_expired:
  assumes "stored_session w s c x" and "x < now e (ticks w)" and "\<not> auto_relogin (prefs e)"
  shows "ensureValidSession e w = (Inl LoggedOut, clearStoredSession (w\<lparr>ticks := Suc (ticks w)\<rparr>))"
  using assms(3) getStoredSession_expired [OF assms(1) assms(2)]
  by (simp add: ensureValidSession_def Let_def)

lemma ensureValidSession_stale:
  assumes "stored_session w s c x" and "now e (ticks w) \<le> x"
    and "x - now e (Suc (ticks w)) < 5 * 60 * 1000" and "\<not> auto_relogin (prefs e)"
  shows "ensureValidSession e w = (Inl SessionExpiredReloginDisabled, w\<lparr>ticks := Suc (Suc (ticks w))\<rparr>)"
  using assms(3) assms(4) getStoredSession_fresh [OF assms(1) assms(2)]
  by (simp add: ensureValidSession_def date_now_def Let_def)

text \<open>A run of \<^verbatim>\<open>login\<close> shows in the network activity.\<close>

lemma login_extends_trace: "trace (snd (login e em pw w)) \<noteq> trace w"
  by (simp add: login_def Let_def storeSession_def date_now_def setItem_def
      split: sum.splits prod.splits)

lemma ensureValidSession_no_login:
  assumes "stored_session w s c x" and "now e (ticks w) \<le> x"
    and "trace (snd (ensureValidSession e w)) = trace w"
  shows "storage (snd (ensureValidSession e w)) = storage w"
proof -
  let ?w1 = "w\<lparr>ticks := Suc (ticks w)\<rparr>"
  let ?w2 = "w\<lparr>ticks := Suc (Suc (ticks w))\<rparr>"
  have g: "getStoredSession e w = (Some \<lparr> sid = s, cookies = c, expiry = x \<rparr>, ?w1)"
    using assms(1) assms(2) by (rule getStoredSession_fresh)
  show ?thesis
  proof (cases "x - now e (Suc (ticks w)) < 5 * 60 * 1000 \<and> auto_relogin (prefs e)")
    case True
    then have "snd (ensureValidSession e w) = snd (login e (email (prefs e)) (password (prefs e)) ?w2)"
      using g by (simp add: ensureValidSession_def date_now_def Let_def split: prod.splits sum.splits)
    with assms(3) login_extends_trace [of e "email (prefs e)" "password (prefs e)" ?w2]
    show ?thesis by simp
  next
    case False
    then have "snd (ensureValidSession e w) = ?w2"
      using g by (auto simp: ensureValidSession_def date_now_def Let_def)
    then show ?thesis by simp
  qed
qed

lemma isAuthenticated_stored:
  assumes "stored_session w s c x"
  shows "fst (isAuthenticated e w)
           = (now e (ticks w) \<le> x \<and> now e (Suc (ticks w)) + 5 * 60 * 1000 \<le> x)
       \<and> (now e (ticks w) \<le> x \<longrightarrow> storage (snd (isAuthenticated e w)) = storage w)"
proof (cases "x < now e (ticks w)")
  case True
  with assms have "getStoredSession e w = (None, clearStoredSession (w\<lparr>ticks := Suc (ticks w)\<rparr>))"
    by (rule getStoredSession_expired)
  with True show ?thesis by (simp add: isAuthenticated_def)
next
  case False
  then have le: "now e (ticks w) \<le> x" by simp
  with assms have "getStoredSession e w
      = (Some \<lparr> sid = s, cookies = c, expiry = x \<rparr>, w\<lparr>ticks := Suc (ticks w)\<rparr>)"
    by (rule getStoredSession_fresh)
  with le show ?thesis by (auto simp: isAuthenticated_def date_now_def Let_def)
qed

lemma ensureValidSession_stored_sid:
  assumes "stored_session w s c x"
    and "fst (ensureValidSession e w) = Inr v"
    and "trace (snd (ensureValidSession e w)) = trace w"
  shows "v = s \<and> 5 * 60 * 1000 \<le> x - now e (Suc (ticks w))"
proof (cases "x < now e (ticks w)")
  case True
  with assms(1) have "getStoredSession e w = (None, clearStoredSession (w\<lparr>ticks := Suc (ticks w)\<rparr>))"
    by (rule getStoredSession_expired)
  with assms(2) assms(3) show ?thesis
    by (auto simp: ensureValidSession_def login_def Let_def trace_clearStoredSession
        storeSession_def date_now_def setItem_def split: sum.splits prod.splits if_splits)
next
  case False
  then have "now e (ticks w) \<le> x" by simp
  with assms(1) have "getStoredSession e w
      = (Some \<lparr> sid = s, cookies = c, expiry = x \<rparr>, w\<lparr>ticks := Suc (ticks w)\<rparr>)"
    by (rule getStoredSession_fresh)
  with assms(2) assms(3) show ?thesis
    by (auto simp: ensureValidSession_def login_def Let_def
        storeSession_def date_now_def setItem_def split: sum.splits prod.splits if_splits)
qed

subsection \<open>The sessions of the examples\<close>

lemmas digits_eval = parseInt10_def trimStart_digit is_digit_def read_nat_def digit_val_def

lemmas keys_eval = SESSION_COOKIE_def SESSION_COOKIES_def SESSION_EXPIRY_def

lemma ex_now_on: "now (portal_on tree p reply) i = 1762128000000 + int i"
  by (simp add: portal_on_def)

lemma ex_now: "now (portal_env p reply) i = 1762128000000 + int i"
  by (simp add: portal_env_def ex_now_on)

lemma ex_prefs: "prefs (portal_env p reply) = p"
  by (simp add: portal_env_def portal_on_def)

lemma ex_stored:
  "stored_session (session_world ''1762131600000'') ''abc123'' ''locale=en; sid=abc123'' 1762131600000"
  by (simp add: stored_session_def session_world_def keys_eval digits_eval)

lemma ex_stored_near:
  "stored_session (session_world ''1762128060000'') ''abc123'' ''locale=en; sid=abc123'' 1762128060000"
  by (simp add: stored_session_def session_world_def keys_eval digits_eval)

lemma ex_stored_expired:
  "stored_session (session_world ''1762127999000'') ''abc123'' ''locale=en; sid=abc123'' 1762127999000"
  by (simp add: stored_session_def session_world_def keys_eval digits_eval)

lemma ex_world: "ticks (session_world x) = 0" "trace (session_world x) = []"
  by (simp_all add: session_world_def)

subsection \<open>The hot path\<close>

text \<open>
  Claim C2: for every stored session whose expiry is at least five minutes ahead of
  the clock at the time of the call (at both readings the call takes),
  \<^verbatim>\<open>ensureValidSession\<close> returns the stored session identifier, and the call adds
  nothing to the network activity: no \<^verbatim>\<open>fetch\<close>, no run of \<^verbatim>\<open>login\<close>. The store is
  left as it was.
\<close>

theorem C2_valid_session_hot_path:
  assumes "stored_session w s c x"
    and "5 * 60 * 1000 \<le> x - now e (ticks w)"
    and "5 * 60 * 1000 \<le> x - now e (Suc (ticks w))"
  shows "fst (ensureValidSession e w) = Inr s
       \<and> trace (snd (ensureValidSession e w)) = trace w
       \<and> storage (snd (ensureValidSession e w)) = storage w"
proof -
  from assms(2) have "now e (ticks w) \<le> x" by simp
  with assms(1) have "ensureValidSession e w = (Inr s, w\<lparr>ticks := Suc (Suc (ticks w))\<rparr>)"
    using assms(3) by (rule ensureValidSession_fresh)
  then show ?thesis by simp
qed

theorem C2_valid_session_hot_path_witness:
  "stored_session (session_world ''1762131600000'') ''abc123'' ''locale=en; sid=abc123'' 1762131600000
   \<and> auto_relogin (prefs (portal_env with_credentials page_response))
   \<and> fst (ensureValidSession (portal_env with_credentials page_response)
            (session_world ''1762131600000'')) = Inr ''abc123''
   \<and> trace (snd (ensureValidSession (portal_env with_credentials page_response)
            (session_world ''1762131600000''))) = []"
proof -
  let ?e = "portal_env with_credentials page_response"
  let ?w = "session_world ''1762131600000''"
  have h2: "5 * 60 * 1000 \<le> 1762131600000 - now ?e (ticks ?w)"
    by (simp add: ex_now ex_world)
  have h3: "5 * 60 * 1000 \<le> 1762131600000 - now ?e (Suc (ticks ?w))"
    by (simp add: ex_now ex_world)
  have "auto_relogin (prefs ?e)"
    by (simp add: ex_prefs auto_relogin_def with_credentials_def)
  with C2_valid_session_hot_path [OF ex_stored h2 h3] ex_stored show ?thesis
    by (simp add: ex_world)
qed

subsection \<open>A stale session without credentials\<close>

text \<open>
  Claim C9, as stated, fails on a session whose expiry has already passed:
  \<^verbatim>\<open>getStoredSession\<close> purges it and returns \<^verbatim>\<open>null\<close>, and \<^verbatim>\<open>ensureValidSession\<close>
  then fails with the error of a missing session ("You're logged out ..."), not with the
  session-expired one.
\<close>

theorem C9_expired_session_counterexample:
  "stored_session (session_world ''1762127999000'') ''abc123'' ''locale=en; sid=abc123'' 1762127999000
   \<and> 1762127999000 - now (portal_env no_credentials page_response) 0 < 5 * 60 * 1000
   \<and> \<not> auto_relogin (prefs (portal_env no_credentials page_response))
   \<and> fst (ensureValidSession (portal_env no_credentials page_response)
            (session_world ''1762127999000'')) = Inl LoggedOut
   \<and> fst (ensureValidSession (portal_env no_credentials page_response)
            (session_world ''1762127999000'')) \<noteq> Inl SessionExpiredReloginDisabled"
proof -
  let ?e = "portal_env no_credentials page_response"
  let ?w = "session_world ''1762127999000''"
  have "1762127999000 < now ?e (ticks ?w)" by (simp add: ex_now ex_world)
  with ex_stored_expired
  have "getStoredSession ?e ?w = (None, clearStoredSession (?w\<lparr>ticks := Suc (ticks ?w)\<rparr>))"
    by (rule getStoredSession_expired)
  then show ?thesis
    using ex_stored_expired
    by (simp add: ensureValidSession_def ex_prefs auto_relogin_def no_credentials_def ex_now)
qed

text \<open>
  Claim C9, amended: for every stored session whose expiry is less than five minutes
  ahead of the clock (at both readings the call takes), when no auto-relogin
  credentials are configured, \<^verbatim>\<open>ensureValidSession\<close> fails and performs no login
  attempt. When the expiry has not yet passed it fails with the session-expired error
  and leaves the store as it was; when the expiry has passed it fails with the
  logged-out error of a missing session, and the three keys of the session have been
  removed from the store.
\<close>

theorem C9_stale_session_no_login:
  assumes "stored_session w s c x"
    and "\<not> auto_relogin (prefs e)"
    and "x - now e (ticks w) < 5 * 60 * 1000"
    and "x - now e (Suc (ticks w)) < 5 * 60 * 1000"
  shows "fst (ensureValidSession e w)
           = Inl (if x < now e (ticks w) then LoggedOut else SessionExpiredReloginDisabled)
       \<and> trace (snd (ensureValidSession e w)) = trace w
       \<and> storage (snd (ensureValidSession e w))
           = (if x < now e (ticks w)
              then (storage w)(SESSION_COOKIE := None, SESSION_COOKIES := None, SESSION_EXPIRY := None)
              else storage w)"
proof (cases "x < now e (ticks w)")
  case True
  with assms(1) assms(2)
  have "ensureValidSession e w = (Inl LoggedOut, clearStoredSession (w\<lparr>ticks := Suc (ticks w)\<rparr>))"
    by (intro ensureValidSession_expired)
  with True show ?thesis
    by (simp add: trace_clearStoredSession clearStoredSession_storage)
next
  case False
  then have "now e (ticks w) \<le> x" by simp
  with assms(1) assms(4) assms(2)
  have "ensureValidSession e w = (Inl SessionExpiredReloginDisabled, w\<lparr>ticks := Suc (Suc (ticks w))\<rparr>)"
    by (intro ensureValidSession_stale)
  with False show ?thesis by simp
qed

theorem C9_stale_session_no_login_witness:
  "stored_session (session_world ''1762128060000'') ''abc123'' ''locale=en; sid=abc123'' 1762128060000
   \<and> stored_session (session_world ''1762127999000'') ''abc123'' ''locale=en; sid=abc123'' 1762127999000
   \<and> \<not> auto_relogin (prefs (portal_env no_credentials page_response))
   \<and> fst (ensureValidSession (portal_env no_credentials page_response)
            (session_world ''1762128060000'')) = Inl SessionExpiredReloginDisabled
   \<and> trace (snd (ensureValidSession (portal_env no_credentials page_response)
            (session_world ''1762128060000''))) = []
   \<and> storage (snd (ensureValidSession (portal_env no_credentials page_response)
            (session_world ''1762128060000''))) = storage (session_world ''1762128060000'')
   \<and> fst (ensureValidSession (portal_env no_credentials page_response)
            (session_world ''1762127999000'')) = Inl LoggedOut
   \<and> trace (snd (ensureValidSession (portal_env no_credentials page_response)
            (session_world ''1762127999000''))) = []
   \<and> storage (snd (ensureValidSession (portal_env no_credentials page_response)
            (session_world ''1762127999000''))) SESSION_COOKIE = None
   \<and> storage (snd (ensureValidSession (portal_env no_credentials page_response)
            (session_world ''1762127999000''))) SESSION_COOKIES = None
   \<and> storage (snd (ensureValidSession (portal_env no_credentials page_response)
            (session_world ''1762127999000''))) SESSION_EXPIRY = None"
proof -
  let ?e = "portal_env no_credentials page_response"
  let ?w = "session_world ''1762128060000''"
  let ?v = "session_world ''1762127999000''"
  have h2: "\<not> auto_relogin (prefs ?e)"
    by (simp add: ex_prefs auto_relogin_def no_credentials_def)
  have h3: "1762128060000 - now ?e (ticks ?w) < 5 * 60 * 1000"
    by (simp add: ex_now ex_world)
  have h4: "1762128060000 - now ?e (Suc (ticks ?w)) < 5 * 60 * 1000"
    by (simp add: ex_now ex_world)
  have k3: "1762127999000 - now ?e (ticks ?v) < 5 * 60 * 1000"
    by (simp add: ex_now ex_world)
  have k4: "1762127999000 - now ?e (Suc (ticks ?v)) < 5 * 60 * 1000"
    by (simp add: ex_now ex_world)
  from C9_stale_session_no_login [OF ex_stored_near h2 h3 h4]
    C9_stale_session_no_login [OF ex_stored_expired h2 k3 k4]
    ex_stored_near ex_stored_expired h2
  show ?thesis
    by (simp add: ex_now ex_world)
qed

subsection \<open>Reading the stored session\<close>

text \<open>
  Claim C6, as stated, fails: \<^verbatim>\<open>getStoredSession\<close> compares the expiry with the
  clock itself, without the buffer. A session that expires in one minute is returned by
  \<^verbatim>\<open>getSessionCookie\<close>, and its keys stay in the store.
\<close>

theorem C6_within_buffer_counterexample:
  "stored_session (session_world ''1762128060000'') ''abc123'' ''locale=en; sid=abc123'' 1762128060000
   \<and> 1762128060000 - now (portal_env no_credentials page_response) 0 = 60000
   \<and> fst (getSessionCookie (portal_env no_credentials page_response)
            (session_world ''1762128060000'')) = Inr ''abc123''
   \<and> storage (snd (getSessionCookie (portal_env no_credentials page_response)
            (session_world ''1762128060000''))) SESSION_EXPIRY = Some ''1762128060000''"
proof -
  let ?e = "portal_env no_credentials page_response"
  let ?w = "session_world ''1762128060000''"
  have "now ?e (ticks ?w) \<le> 1762128060000" by (simp add: ex_now ex_world)
  with ex_stored_near
  have "getStoredSession ?e ?w
      = (Some \<lparr> sid = ''abc123'', cookies = ''locale=en; sid=abc123'', expiry = 1762128060000 \<rparr>,
         ?w\<lparr>ticks := Suc (ticks ?w)\<rparr>)"
    by (rule getStoredSession_fresh)
  then show ?thesis
    using ex_stored_near
    by (simp add: getSessionCookie_def ex_now session_world_def keys_eval)
qed

text \<open>
  Claim C6, amended, for a stored session whose expiry is within the range in which a
  JavaScript number is the integer it was read from. \<^verbatim>\<open>getStoredSession\<close>, through
  which every operation reads the stored session, treats it as absent and purges the
  three stored keys whenever its expiry is earlier than the clock; it applies no buffer,
  and a session whose expiry has not passed is returned with the store unchanged.
  \<^verbatim>\<open>getSessionCookie\<close> and \<^verbatim>\<open>getSessionCookies\<close> do to the store what
  \<^verbatim>\<open>getStoredSession\<close> does, and never return session data whose expiry is earlier
  than the clock reading of the call. The buffer of five minutes is applied by
  \<^verbatim>\<open>isAuthenticated\<close> and \<^verbatim>\<open>ensureValidSession\<close>: \<^verbatim>\<open>isAuthenticated\<close> answers
  yes exactly when the expiry has not passed and is at least five minutes ahead;
  \<^verbatim>\<open>ensureValidSession\<close> returns the stored identifier without a login only when the
  expiry is at least five minutes ahead; and neither of them purges a session whose
  expiry has not passed: when \<^verbatim>\<open>ensureValidSession\<close> runs no login, it leaves the store
  as it was.
\<close>

theorem C6_expired_session_purged:
  assumes "stored_session w s c x" and "\<bar>x\<bar> < 2 ^ 53"
  shows "(x < now e (ticks w) \<longrightarrow>
            fst (getStoredSession e w) = None
          \<and> storage (snd (getStoredSession e w)) SESSION_COOKIE = None
          \<and> storage (snd (getStoredSession e w)) SESSION_COOKIES = None
          \<and> storage (snd (getStoredSession e w)) SESSION_EXPIRY = None)
       \<and> (now e (ticks w) \<le> x \<longrightarrow>
            fst (getStoredSession e w) = Some \<lparr> sid = s, cookies = c, expiry = x \<rparr>
          \<and> storage (snd (getStoredSession e w)) = storage w)
       \<and> snd (getSessionCookie e w) = snd (getStoredSession e w)
       \<and> snd (getSessionCookies e w) = snd (getStoredSession e w)
       \<and> (\<forall>v. fst (getSessionCookie e w) = Inr v \<longrightarrow> v = s \<and> now e (ticks w) \<le> x)
       \<and> (\<forall>v. fst (getSessionCookies e w) = Inr v \<longrightarrow> now e (ticks w) \<le> x)
       \<and> fst (isAuthenticated e w)
           = (now e (ticks w) \<le> x \<and> now e (Suc (ticks w)) + 5 * 60 * 1000 \<le> x)
       \<and> (now e (ticks w) \<le> x \<longrightarrow> storage (snd (isAuthenticated e w)) = storage w)
       \<and> (now e (ticks w) \<le> x \<and> trace (snd (ensureValidSession e w)) = trace w
            \<longrightarrow> storage (snd (ensureValidSession e w)) = storage w)
       \<and> (\<forall>v. fst (ensureValidSession e w) = Inr v \<and> trace (snd (ensureValidSession e w)) = trace w
              \<longrightarrow> v = s \<and> 5 * 60 * 1000 \<le> x - now e (Suc (ticks w)))"
proof -
  have last: "\<forall>v. fst (ensureValidSession e w) = Inr v \<and> trace (snd (ensureValidSession e w)) = trace w
      \<longrightarrow> v = s \<and> 5 * 60 * 1000 \<le> x - now e (Suc (ticks w))"
    using ensureValidSession_stored_sid [OF assms(1)] by blast
  have keep: "now e (ticks w) \<le> x \<and> trace (snd (ensureValidSession e w)) = trace w
      \<longrightarrow> storage (snd (ensureValidSession e w)) = storage w"
    using ensureValidSession_no_login [OF assms(1)] by blast
  have auth: "fst (isAuthenticated e w)
           = (now e (ticks w) \<le> x \<and> now e (Suc (ticks w)) + 5 * 60 * 1000 \<le> x)
       \<and> (now e (ticks w) \<le> x \<longrightarrow> storage (snd (isAuthenticated e w)) = storage w)"
    using assms(1) by (rule isAuthenticated_stored)
  have same: "snd (getSessionCookie e w) = snd (getStoredSession e w)
       \<and> snd (getSessionCookies e w) = snd (getStoredSession e w)"
    by (simp add: getSessionCookie_def getSessionCookies_def split: prod.splits option.splits)
  have rest: "(x < now e (ticks w) \<longrightarrow>
            fst (getStoredSession e w) = None
          \<and> storage (snd (getStoredSession e w)) SESSION_COOKIE = None
          \<and> storage (snd (getStoredSession e w)) SESSION_COOKIES = None
          \<and> storage (snd (getStoredSession e w)) SESSION_EXPIRY = None)
       \<and> (now e (ticks w) \<le> x \<longrightarrow>
            fst (getStoredSession e w) = Some \<lparr> sid = s, cookies = c, expiry = x \<rparr>
          \<and> storage (snd (getStoredSession e w)) = storage w)
       \<and> (\<forall>v. fst (getSessionCookie e w) = Inr v \<longrightarrow> v = s \<and> now e (ticks w) \<le> x)
       \<and> (\<forall>v. fst (getSessionCookies e w) = Inr v \<longrightarrow> now e (ticks w) \<le> x)"
  proof (cases "x < now e (ticks w)")
    case True
    with assms(1) have "getStoredSession e w = (None, clearStoredSession (w\<lparr>ticks := Suc (ticks w)\<rparr>))"
      by (rule getStoredSession_expired)
    with True show ?thesis
      by (simp add: storage_clearStoredSession getSessionCookie_def getSessionCookies_def)
  next
    case False
    then have le: "now e (ticks w) \<le> x" by simp
    with assms(1) have "getStoredSession e w
        = (Some \<lparr> sid = s, cookies = c, expiry = x \<rparr>, w\<lparr>ticks := Suc (ticks w)\<rparr>)"
      by (rule getStoredSession_fresh)
    with le show ?thesis
      by (simp add: getSessionCookie_def getSessionCookies_def)
  qed
  from rest same auth keep last show ?thesis by blast
qed

theorem C6_expired_session_purged_witness:
  "stored_session (session_world ''1762127999000'') ''abc123'' ''locale=en; sid=abc123'' 1762127999000
   \<and> \<bar>1762127999000\<bar> < (2::int) ^ 53
   \<and> 1762127999000 < now (portal_env no_credentials page_response) 0
   \<and> fst (getStoredSession (portal_env no_credentials page_response)
            (session_world ''1762127999000'')) = None
   \<and> storage (snd (getStoredSession (portal_env no_credentials page_response)
            (session_world ''1762127999000''))) SESSION_COOKIE = None
   \<and> storage (snd (getStoredSession (portal_env no_credentials page_response)
            (session_world ''1762127999000''))) SESSION_COOKIES = None
   \<and> storage (snd (getStoredSession (portal_env no_credentials page_response)
            (session_world ''1762127999000''))) SESSION_EXPIRY = None
   \<and> fst (isAuthenticated (portal_env no_credentials page_response)
            (session_world ''1762127999000'')) = False
   \<and> stored_session (session_world ''1762128060000'') ''abc123'' ''locale=en; sid=abc123'' 1762128060000
   \<and> now (portal_env no_credentials page_response) 0 \<le> 1762128060000
   \<and> fst (getStoredSession (portal_env no_credentials page_response)
            (session_world ''1762128060000''))
       = Some \<lparr> sid = ''abc123'', cookies = ''locale=en; sid=abc123'', expiry = 1762128060000 \<rparr>
   \<and> fst (isAuthenticated (portal_env no_credentials page_response)
            (session_world ''1762128060000'')) = False
   \<and> storage (snd (isAuthenticated (portal_env no_credentials page_response)
            (session_world ''1762128060000''))) = storage (session_world ''1762128060000'')
   \<and> stored_session (session_world ''1762131600000'') ''abc123'' ''locale=en; sid=abc123'' 1762131600000
   \<and> fst (getStoredSession (portal_env no_credentials page_response)
            (session_world ''1762131600000''))
       = Some \<lparr> sid = ''abc123'', cookies = ''locale=en; sid=abc123'', expiry = 1762131600000 \<rparr>
   \<and> storage (snd (getStoredSession (portal_env no_credentials page_response)
            (session_world ''1762131600000''))) = storage (session_world ''1762131600000'')
   \<and> fst (isAuthenticated (portal_env no_credentials page_response)
            (session_world ''1762131600000'')) = True"
proof -
  let ?e = "portal_env no_credentials page_response"
  let ?w = "session_world ''1762127999000''"
  let ?u = "session_world ''1762128060000''"
  let ?v = "session_world ''1762131600000''"
  have r1: "\<bar>1762127999000\<bar> < (2::int) ^ 53" by simp
  have r2: "\<bar>1762128060000\<bar> < (2::int) ^ 53" by simp
  have r3: "\<bar>1762131600000\<bar> < (2::int) ^ 53" by simp
  have a: "1762127999000 < now ?e (ticks ?w)" by (simp add: ex_now ex_world)
  have b: "now ?e (ticks ?u) \<le> 1762128060000" by (simp add: ex_now ex_world)
  have c: "now ?e (ticks ?v) \<le> 1762131600000" by (simp add: ex_now ex_world)
  from C6_expired_session_purged [OF ex_stored_expired r1, of ?e]
    C6_expired_session_purged [OF ex_stored_near r2, of ?e]
    C6_expired_session_purged [OF ex_stored r3, of ?e]
    a b c r1 ex_stored_expired ex_stored_near ex_stored
  show ?thesis
    by (simp add: ex_now ex_world)
qed

section \<open>The clock executor\<close>

subsection \<open>Network activity\<close>

lemma trace_getStoredSession: "getStoredSession e w = (s, w1) \<Longrightarrow> trace w1 = trace w"
  by (auto simp: getStoredSession_def Let_def date_now_def trace_clearStoredSession
      split: option.splits if_splits)

lemma trace_storeSession: "trace (storeSession e s c w) = trace w"
  by (simp add: storeSession_def date_now_def setItem_def)

lemma trace_login:
  "login e em pw w = (r, w1) \<Longrightarrow> trace w1 = trace w @ [LoginFlow em pw (login_flow e (trace w) em pw)]"
  by (auto simp: login_def Let_def trace_storeSession split: sum.splits prod.splits)

lemma trace_getSessionCookies: "getSessionCookies e w = (r, w1) \<Longrightarrow> trace w1 = trace w"
  by (auto simp: getSessionCookies_def split: prod.splits option.splits dest: trace_getStoredSession)

lemma post_exchanges_append:
  "post_exchanges (xs @ ys) = post_exchanges xs @ post_exchanges ys"
  by (induction xs rule: post_exchanges.induct) simp_all

lemma quiet_step_refl: "trace w' = trace w \<Longrightarrow> quiet_step w w'"
  by (simp add: quiet_step_def)

lemma quiet_step_trans: "quiet_step w w1 \<Longrightarrow> quiet_step w1 w2 \<Longrightarrow> quiet_step w w2"
  by (auto simp: quiet_step_def post_exchanges_append)

lemma quiet_login: "login e em pw w0 = (r, w1) \<Longrightarrow> trace w0 = trace w \<Longrightarrow> quiet_step w w1"
  by (auto simp: quiet_step_def dest: trace_login)

lemma quiet_ensureValidSession: "ensureValidSession e w = (r, w') \<Longrightarrow> quiet_step w w'"
  by (auto simp: ensureValidSession_def Let_def date_now_def
      split: prod.splits sum.splits option.splits if_splits
      dest!: trace_getStoredSession intro: quiet_step_refl quiet_login)

lemma quiet_getDefaultHeaders: "getDefaultHeaders e skip w = (r, w') \<Longrightarrow> quiet_step w w'"
  by (auto simp: getDefaultHeaders_def split: prod.splits sum.splits if_splits
      dest!: trace_getSessionCookies quiet_ensureValidSession
      intro: quiet_step_refl quiet_step_trans)

lemma quiet_fetch_get:
  "fetch e req w = (r, w') \<Longrightarrow> http_method req \<noteq> ''POST'' \<Longrightarrow> quiet_step w w'"
  by (auto simp: fetch_def Let_def quiet_step_def)

lemma quiet_getModifyPageData: "getModifyPageData e y m d w = (r, w') \<Longrightarrow> quiet_step w w'"
  unfolding getModifyPageData_def Let_def
  by (auto split: prod.splits sum.splits option.splits if_splits
      dest!: quiet_getDefaultHeaders quiet_fetch_get intro: quiet_step_trans)

lemma posts_quiet: "quiet_step w w' \<Longrightarrow> post_exchanges (new_events w w') = []"
  by (auto simp: quiet_step_def new_events_def)

lemma posts_after_fetch:
  assumes "quiet_step w w2" and "fetch e req w2 = (r, w3)" and "http_method req = ''POST''"
  shows "post_exchanges (new_events w w3) = [(req, r)]"
proof -
  from assms(1) obtain evs where "trace w2 = trace w @ evs" "post_exchanges evs = []"
    by (auto simp: quiet_step_def)
  moreover from assms(2) have "trace w3 = trace w2 @ [Exchange req r]"
    by (auto simp: fetch_def Let_def)
  ultimately show ?thesis using assms(3)
    by (simp add: new_events_def post_exchanges_append)
qed

lemma posts_after_two_fetches:
  assumes "quiet_step w w2" and "fetch e req w2 = (r, w3)" and "http_method req = ''POST''"
    and "fetch e req' w3 = (r', w4)" and "http_method req' = ''POST''"
  shows "post_exchanges (new_events w w4) = [(req, r), (req', r')]"
proof -
  from assms(1) obtain evs where "trace w2 = trace w @ evs" "post_exchanges evs = []"
    by (auto simp: quiet_step_def)
  moreover from assms(2) have "trace w3 = trace w2 @ [Exchange req r]"
    by (auto simp: fetch_def Let_def)
  moreover from assms(4) have "trace w4 = trace w3 @ [Exchange req' r']"
    by (auto simp: fetch_def Let_def)
  ultimately show ?thesis using assms(3) assms(5)
    by (simp add: new_events_def post_exchanges_append)
qed

lemma method_insert_request: "http_method (insert_request hdrs body) = ''POST''"
  by (simp add: insert_request_def)

lemma resolve_spot_supported:
  "supported (validateClockingSupport md) \<Longrightarrow> \<exists>g. resolve_spot p (availableSpots md) s = Inr g"
  by (cases "availableSpots md")
     (auto simp: validateClockingSupport_def Let_def resolve_spot_def first_spot_id_def
       split: option.splits if_splits)


subsection \<open>The run of the examples\<close>

lemma ex_merged:
  "mergeCookies [Some ''locale=en; sid=abc123'', Some ''employee_language=en; __bd_fedee=1'']
     = ''locale=en; sid=abc123; employee_language=en; __bd_fedee=1''"
  by (simp add: cookie_eval)

lemma ex_headers_on:
  assumes "ticks w < 1000" and "storage w = storage (session_world ''1762131600000'')"
  shows "getDefaultHeaders (portal_on tree p reply) skip w
     = (Inr office_headers, w\<lparr>ticks := (if skip then 1 else 3) + ticks w\<rparr>)"
proof -
  from assms(2) ex_stored
  have st: "stored_session w ''abc123'' ''locale=en; sid=abc123'' 1762131600000"
    by (simp add: stored_session_def)
  show ?thesis
  proof (cases skip)
    case True
    with assms(1) show ?thesis
      using getSessionCookies_fresh [OF st, of "portal_on tree p reply"]
      by (simp add: getDefaultHeaders_def ex_now_on ex_merged office_headers_def SSL_BASE_URL_def)
  next
    case False
    have v: "ensureValidSession (portal_on tree p reply) w
        = (Inr ''abc123'', w\<lparr>ticks := Suc (Suc (ticks w))\<rparr>)"
      using assms(1) by (intro ensureValidSession_fresh [OF st]) (simp_all add: ex_now_on)
    have c: "getSessionCookies (portal_on tree p reply) (w\<lparr>ticks := Suc (Suc (ticks w))\<rparr>)
        = (Inr ''locale=en; sid=abc123; employee_language=en; __bd_fedee=1'',
           w\<lparr>ticks := Suc (Suc (Suc (ticks w)))\<rparr>)"
      using assms(1)
        getSessionCookies_fresh [of "w\<lparr>ticks := Suc (Suc (ticks w))\<rparr>" "''abc123''"
          "''locale=en; sid=abc123''" 1762131600000 "portal_on tree p reply"]
      by (simp add: stored_session_ticks st ex_now_on ex_merged)
    from False v c show ?thesis
      by (simp add: getDefaultHeaders_def office_headers_def SSL_BASE_URL_def)
  qed
qed

lemma ex_headers:
  assumes "ticks w < 1000" and "storage w = storage (session_world ''1762131600000'')"
  shows "getDefaultHeaders (portal_env p reply) skip w
     = (Inr office_headers, w\<lparr>ticks := (if skip then 1 else 3) + ticks w\<rparr>)"
  unfolding portal_env_def using assms by (rule ex_headers_on)

lemma ex_read_page:
  "readModifyPage (reading modify_page) modify_page_html = Inr office_page"
  by code_simp

text \<open>
  A field whose \<^verbatim>\<open>id\<close> holds a double quote: the selector built from it is the
  engine's to read, and where the engine rejects it, reading the page fails.
\<close>

lemma ex_quoted_id:
  "readModifyPage (reading quoted_id_page) modify_page_html
     = Inl (SelectorError ''Unmatched selector: label[for=\"a\"b\"]'')"
  by code_simp

lemma ex_not_login_page:
  "\<not> str_includes modify_page_html ''sign_in'' \<and> \<not> str_includes modify_page_html LOGIN_JA"
  by code_simp

lemma ex_page_on:
  "getModifyPageData (portal_on tree p reply) 2025 11 3 (session_world ''1762131600000'')
    = (readModifyPage (reading tree) modify_page_html, page_world)"
proof -
  have h: "getDefaultHeaders (portal_on tree p reply) False (session_world ''1762131600000'')
      = (Inr office_headers, (session_world ''1762131600000'')\<lparr>ticks := 3\<rparr>)"
    using ex_headers_on [of "session_world ''1762131600000''" tree p reply False]
    by (simp add: session_world_def)
  have f: "fetch (portal_on tree p reply) page_request ((session_world ''1762131600000'')\<lparr>ticks := 3\<rparr>)
      = (Inr page_response, page_world)"
    by (simp add: fetch_def portal_on_def page_request_def session_world_def page_world_def Let_def)
  have okp: "ok page_response" "body_text page_response = modify_page_html"
    by (simp_all add: ok_def page_response_def)
  have pr: "platform (portal_on tree p reply) = reading tree"
    by (simp add: portal_on_def)
  have req: "\<lparr> url = SSL_BASE_URL @ ''/employee/adit/modify?year='' @ show_int 2025
        @ ''&month='' @ show_int 11 @ ''&day='' @ show_int 3,
        http_method = ''GET'', headers = office_headers, form = None \<rparr> = page_request"
    by (simp add: page_request_def SSL_BASE_URL_def show_int_def show_nat.simps digit_char_def)
  show ?thesis
    unfolding getModifyPageData_def h Let_def prod.case sum.case req f
    using okp ex_not_login_page by (simp add: pr)
qed

lemma ex_page:
  "getModifyPageData (portal_env p reply) 2025 11 3 (session_world ''1762131600000'')
    = (readModifyPage (reading modify_page) modify_page_html, page_world)"
  unfolding portal_env_def by (rule ex_page_on)

lemma ex_office_page:
  "getModifyPageData (portal_env p reply) 2025 11 3 (session_world ''1762131600000'')
     = (Inr office_page, page_world)"
  by (simp add: ex_page ex_read_page)

lemma ex_supported:
  "supported (validateClockingSupport office_page)"
  "availableSpots office_page = [(''1'', ''Office''), (''2'', ''Home'')]"
  by (simp_all add: office_page_def validateClockingSupport_def)

lemma ex_spot: "resolve_spot q [(''1'', ''Office''), (''2'', ''Home'')] ''Office'' = Inr ''1''"
  by code_simp

lemma ex_monday: "getFullYear monday = 2025" "getMonth monday + 1 = 11" "getDate monday = 3"
  by (simp_all add: monday_def)


lemma ex_empty_notes:
  "clockInOut (portal_env p reply) monday without_notes (session_world ''1762131600000'')
    = (Inl NotesRequired, page_world)"
  unfolding clockInOut_def Let_def ex_monday ex_office_page prod.case sum.case
  using ex_supported ex_spot
  by (simp add: without_notes_def or_else_def)

lemma ex_quoted_run:
  "clockInOut (portal_on quoted_id_page p reply) monday without_notes (session_world ''1762131600000'')
    = (Inl (SelectorError ''Unmatched selector: label[for=\"a\"b\"]''), page_world)"
  unfolding clockInOut_def Let_def ex_monday ex_page_on ex_quoted_id prod.case sum.case
  by simp

lemma ex_rejected:
  "clockInOut (portal_env p rejected_reply) monday with_notes (session_world ''1762131600000'')
    = (Inl (ClockFailed ClockIn (BadResult (JObject [(''result'', JNumber 0)]))), rejected_world)"
proof -
  have h: "getDefaultHeaders (portal_env p rejected_reply) True page_world
      = (Inr office_headers, page_world\<lparr>ticks := 4\<rparr>)"
    using ex_headers [of page_world p rejected_reply True]
    by (simp add: page_world_def session_world_def)
  have f: "fetch (portal_env p rejected_reply) clock_in_request (page_world\<lparr>ticks := 4\<rparr>)
      = (Inr rejected_reply, rejected_world)"
    by (simp add: fetch_def portal_env_def portal_on_def clock_in_request_def insert_request_def
        page_world_def rejected_world_def session_world_def Let_def)
  have c: "check_clock_response ClockIn rejected_reply
      = Inl (ClockFailed ClockIn (BadResult (JObject [(''result'', JNumber 0)])))"
    by (simp add: check_clock_response_def rejected_reply_def ok_def)
  have n: "notes_of with_notes = ''Remote work''" "spotNameOrId_of with_notes = ''Office''"
    "clockInTime_of with_notes = ''10:00''"
    by (simp_all add: with_notes_def or_else_def)
  show ?thesis
    unfolding clockInOut_def Let_def ex_monday n ex_office_page prod.case sum.case
    using ex_supported ex_spot h f c
    by (simp add: clock_in_request_def [symmetric])
qed

lemma ex_page_posts:
  "post_exchanges (new_events (session_world ''1762131600000'') page_world) = []"
  by (simp add: new_events_def page_world_def session_world_def page_request_def)

lemma ex_rejected_posts:
  "post_exchanges (new_events (session_world ''1762131600000'') rejected_world)
     = [(clock_in_request, Inr rejected_reply)]"
  by (simp add: new_events_def rejected_world_def session_world_def page_request_def
      clock_in_request_def insert_request_def)

subsection \<open>Empty notes\<close>

text \<open>
  Claim C3, as stated, fails: the notes are tested after the modification page has been
  fetched. With a valid session and no notes the call does fail with the notes-required
  error, but the request for the page has been sent before.
\<close>

theorem C3_page_fetched_counterexample:
  "notes_of without_notes = []
   \<and> trace (session_world ''1762131600000'') = []
   \<and> fst (clockInOut (portal_env no_credentials rejected_reply) monday without_notes
            (session_world ''1762131600000'')) = Inl NotesRequired
   \<and> trace (snd (clockInOut (portal_env no_credentials rejected_reply) monday without_notes
            (session_world ''1762131600000''))) = [Exchange page_request (Inr page_response)]
   \<and> http_method page_request = ''GET''
   \<and> url page_request = ''https://ssl.jobcan.jp/employee/adit/modify?year=2025&month=11&day=3''"
proof -
  have "notes_of without_notes = []"
    by (simp add: without_notes_def or_else_def)
  then show ?thesis
    by (simp add: ex_empty_notes ex_world page_world_def page_request_def)
qed

text \<open>
  Claim C3, amended: for every invocation of \<^verbatim>\<open>clockInOut\<close> with an empty or missing
  notes value the call fails, and it sends no clock request: neither the clock-in nor
  the clock-out \<^verbatim>\<open>POST\<close> is issued. What the call does to the session store and the
  network is what fetching the modification page does (its \<^verbatim>\<open>GET\<close>, and a run of
  \<^verbatim>\<open>login\<close> when the session needs one), which comes before the notes are tested.
  When \<^verbatim>\<open>getModifyPageData\<close> returns the data of the page (the page is fetched, and
  read without a failure), and the data hold what clocking needs, the failure is the
  notes-required error; when fetching or reading the page fails, the failure is that one.
\<close>

theorem C3_empty_notes_no_post:
  assumes "notes_of input = []"
  shows "(\<exists>err. fst (clockInOut e date' input w) = Inl err)
       \<and> snd (clockInOut e date' input w)
           = snd (getModifyPageData e (getFullYear date') (getMonth date' + 1) (getDate date') w)
       \<and> post_exchanges (new_events w (snd (clockInOut e date' input w))) = []
       \<and> (\<forall>md. fst (getModifyPageData e (getFullYear date') (getMonth date' + 1) (getDate date') w) = Inr md
               \<and> supported (validateClockingSupport md)
             \<longrightarrow> fst (clockInOut e date' input w) = Inl NotesRequired)
       \<and> (\<forall>err. fst (getModifyPageData e (getFullYear date') (getMonth date' + 1) (getDate date') w) = Inl err
             \<longrightarrow> fst (clockInOut e date' input w) = Inl err)"
proof -
  obtain r w1 where g: "getModifyPageData e (getFullYear date') (getMonth date' + 1) (getDate date') w = (r, w1)"
    by (cases "getModifyPageData e (getFullYear date') (getMonth date' + 1) (getDate date') w")
  then have q: "post_exchanges (new_events w w1) = []"
    by (auto dest: quiet_getModifyPageData posts_quiet)
  show ?thesis
  proof (cases r)
    case (Inl err)
    with g q show ?thesis by (simp add: clockInOut_def Let_def)
  next
    case (Inr md)
    show ?thesis
    proof (cases "supported (validateClockingSupport md)")
      case False
      with Inr g q show ?thesis by (simp add: clockInOut_def Let_def)
    next
      case True
      then obtain gid where "resolve_spot (platform e) (availableSpots md) (spotNameOrId_of input) = Inr gid"
        using resolve_spot_supported by blast
      with True Inr g q assms show ?thesis by (simp add: clockInOut_def Let_def)
    qed
  qed
qed

theorem C3_empty_notes_no_post_witness:
  "notes_of blank_notice = []
   \<and> fst (getModifyPageData (portal_env no_credentials rejected_reply) 2025 11 3
            (session_world ''1762131600000'')) = Inr office_page
   \<and> supported (validateClockingSupport office_page)
   \<and> fst (clockInOut (portal_env no_credentials rejected_reply) monday blank_notice
            (session_world ''1762131600000'')) = Inl NotesRequired
   \<and> post_exchanges (new_events (session_world ''1762131600000'')
        (snd (clockInOut (portal_env no_credentials rejected_reply) monday blank_notice
            (session_world ''1762131600000'')))) = []
   \<and> fst (getModifyPageData (portal_on quoted_id_page no_credentials rejected_reply) 2025 11 3
            (session_world ''1762131600000''))
       = Inl (SelectorError ''Unmatched selector: label[for=\"a\"b\"]'')
   \<and> fst (clockInOut (portal_on quoted_id_page no_credentials rejected_reply) monday blank_notice
            (session_world ''1762131600000''))
       = Inl (SelectorError ''Unmatched selector: label[for=\"a\"b\"]'')
   \<and> post_exchanges (new_events (session_world ''1762131600000'')
        (snd (clockInOut (portal_on quoted_id_page no_credentials rejected_reply) monday blank_notice
            (session_world ''1762131600000'')))) = []"
proof -
  have n: "notes_of blank_notice = []"
    by (simp add: blank_notice_def or_else_def)
  from C3_empty_notes_no_post [OF n, of "portal_env no_credentials rejected_reply" monday
      "session_world ''1762131600000''"]
    C3_empty_notes_no_post [OF n, of "portal_on quoted_id_page no_credentials rejected_reply" monday
      "session_world ''1762131600000''"]
  show ?thesis
    using n ex_supported(1)
    by (simp add: ex_monday ex_office_page ex_page_on ex_quoted_id ex_page_posts)
qed

subsection \<open>A rejected clock-in\<close>

lemma check_clock_response_rejected:
  assumes "body_json resp = Some j" and "result_of j = Inr r" and "r \<noteq> Some (JNumber 1)"
  shows "\<exists>detail. check_clock_response step resp = Inl (ClockFailed step detail)"
  using assms by (simp add: check_clock_response_def)

lemma time_of_insert_form:
  "map_of (insert_form md y m d t g n) ''time'' = Some (convertTimeFormat t)"
  by (simp add: insert_form_def)

text \<open>
  Claim C4: whenever the first \<^verbatim>\<open>POST\<close> that a \<^verbatim>\<open>clockInOut\<close> call issues, which is
  the clock-in request (its \<^verbatim>\<open>time\<close> field is the clock-in time), is answered with a
  JSON payload whose result discriminator is different from 1, the call fails with the
  submission error of the clock-in step, and it issues no further \<^verbatim>\<open>POST\<close>: the
  clock-out request is never sent.
\<close>

theorem C4_clock_in_rejected:
  assumes posts: "post_exchanges (new_events w (snd (clockInOut e date' input w))) = (req, Inr resp) # rest"
    and j: "body_json resp = Some j" and r: "result_of j = Inr r" and ne: "r \<noteq> Some (JNumber 1)"
  shows "(\<exists>detail. fst (clockInOut e date' input w) = Inl (ClockFailed ClockIn detail))
       \<and> rest = []
       \<and> (\<exists>body. form req = Some body \<and> map_of body ''time'' = Some (convertTimeFormat (clockInTime_of input)))"
proof -
  let ?y = "getFullYear date'" and ?m = "getMonth date' + 1" and ?d = "getDate date'"
  obtain r1 w1 where g: "getModifyPageData e ?y ?m ?d w = (r1, w1)"
    by (cases "getModifyPageData e ?y ?m ?d w")
  then have q1: "quiet_step w w1" by (rule quiet_getModifyPageData)
  then have p1: "post_exchanges (new_events w w1) = []" by (rule posts_quiet)
  show ?thesis
  proof (cases r1)
    case (Inl err)
    with g p1 posts show ?thesis by (simp add: clockInOut_def Let_def)
  next
    case md: (Inr md)
    show ?thesis
    proof (cases "supported (validateClockingSupport md)")
      case False
      with md g p1 posts show ?thesis by (simp add: clockInOut_def Let_def)
    next
      case sup: True
      then obtain gid where gid: "resolve_spot (platform e) (availableSpots md) (spotNameOrId_of input) = Inr gid"
        using resolve_spot_supported by blast
      show ?thesis
      proof (cases "notes_of input = []")
        case True
        with sup gid md g p1 posts show ?thesis by (simp add: clockInOut_def Let_def)
      next
        case nonempty: False
        obtain r2 w2 where h: "getDefaultHeaders e True w1 = (r2, w2)"
          by (cases "getDefaultHeaders e True w1")
        then have "quiet_step w1 w2" by (rule quiet_getDefaultHeaders)
        with q1 have q2: "quiet_step w w2" by (rule quiet_step_trans)
        then have p2: "post_exchanges (new_events w w2) = []" by (rule posts_quiet)
        show ?thesis
        proof (cases r2)
          case (Inl err)
          with nonempty sup gid md g h p2 posts show ?thesis by (simp add: clockInOut_def Let_def)
        next
          case hdrs: (Inr hdrs)
          let ?in = "insert_request hdrs (insert_form md ?y ?m ?d (clockInTime_of input) gid (notes_of input))"
          let ?out = "insert_request hdrs (insert_form md ?y ?m ?d (clockOutTime_of input) gid (notes_of input))"
          obtain r3 w3 where f3: "fetch e ?in w2 = (r3, w3)" by (cases "fetch e ?in w2")
          from q2 f3 have p3: "post_exchanges (new_events w w3) = [(?in, r3)]"
            by (rule posts_after_fetch) (rule method_insert_request)
          show ?thesis
          proof (cases r3)
            case (Inl err)
            with nonempty sup gid md g h hdrs f3 p3 posts show ?thesis
              by (simp add: clockInOut_def Let_def)
          next
            case resp3: (Inr resp3)
            show ?thesis
            proof (cases "check_clock_response ClockIn resp3")
              case (Inl err)
              with nonempty sup gid md g h hdrs f3 resp3
              have res: "clockInOut e date' input w = (Inl err, w3)"
                by (simp add: clockInOut_def Let_def)
              with p3 posts resp3 have eq: "req = ?in" "resp = resp3" "rest = []" by simp_all
              from check_clock_response_rejected [OF j r ne, of ClockIn] eq(2) Inl
              obtain detail where "err = ClockFailed ClockIn detail" by auto
              with res eq show ?thesis
                by (simp add: insert_request_def time_of_insert_form)
            next
              case (Inr u)
              obtain r4 w4 where f4: "fetch e ?out w3 = (r4, w4)" by (cases "fetch e ?out w3")
              from q2 f3 method_insert_request f4 method_insert_request
              have p4: "post_exchanges (new_events w w4) = [(?in, r3), (?out, r4)]"
                by (rule posts_after_two_fetches)
              have "snd (clockInOut e date' input w) = w4"
                using nonempty sup gid md g h hdrs f3 resp3 Inr f4
                by (simp add: clockInOut_def Let_def split: sum.splits)
              with p4 posts resp3 have "resp = resp3" by simp
              with check_clock_response_rejected [OF j r ne, of ClockIn] Inr
              show ?thesis by auto
            qed
          qed
        qed
      qed
    qed
  qed
qed



theorem C4_clock_in_rejected_witness:
  "post_exchanges (new_events (session_world ''1762131600000'')
      (snd (clockInOut (portal_env no_credentials rejected_reply) monday with_notes
          (session_world ''1762131600000''))))
     = [(clock_in_request, Inr rejected_reply)]
   \<and> body_json rejected_reply = Some (JObject [(''result'', JNumber 0)])
   \<and> result_of (JObject [(''result'', JNumber 0)]) = Inr (Some (JNumber 0))
   \<and> fst (clockInOut (portal_env no_credentials rejected_reply) monday with_notes
          (session_world ''1762131600000''))
       = Inl (ClockFailed ClockIn (BadResult (JObject [(''result'', JNumber 0)])))"
proof -
  let ?run = "clockInOut (portal_env no_credentials rejected_reply) monday with_notes
      (session_world ''1762131600000'')"
  have posts: "post_exchanges (new_events (session_world ''1762131600000'') (snd ?run))
      = (clock_in_request, Inr rejected_reply) # []"
    by (simp add: ex_rejected ex_rejected_posts)
  have j: "body_json rejected_reply = Some (JObject [(''result'', JNumber 0)])"
    by (simp add: rejected_reply_def)
  have r: "result_of (JObject [(''result'', JNumber 0)]) = Inr (Some (JNumber 0))"
    by simp
  have ne: "Some (JNumber 0) \<noteq> Some (JNumber 1)"
    by simp
  from C4_clock_in_rejected [OF posts j r ne] posts j r show ?thesis
    by (simp add: ex_rejected)
qed

section \<open>The attendance parser\<close>

lemma querySelector_None:
  "querySelector p e sel = None \<longleftrightarrow> (\<forall>d \<in> set (descendants e). \<not> matches p sel d)"
proof -
  have "querySelector p e sel = None \<longleftrightarrow> filter (matches p sel) (descendants e) = []"
    by (simp add: querySelector_def querySelectorAll_def split: list.splits)
  then show ?thesis by (simp add: filter_empty_conv)
qed

text \<open>
  Claim C10: for every HTML string in whose document no \<^verbatim>\<open>tbody\<close> element is found,
  \<^verbatim>\<open>parseAttendanceHtml(html, year, month)\<close> returns the record with no entries and
  the given year and month. The function has no failing branch: a page of another kind
  yields an empty month, not an error.
\<close>

theorem C10_no_tbody_empty_month:
  assumes "''tbody'' \<notin> set (map (\<lambda>d. localName (fst d)) (descendants (parse p html, [])))"
  shows "parseAttendanceHtml p html y m = \<lparr> entries = [], year = y, month = m \<rparr>"
proof -
  from assms have "querySelector p (parse p html, []) (Tag ''tbody'') = None"
    by (force simp: querySelector_None)
  then show ?thesis
    by (simp add: parseAttendanceHtml_def)
qed

theorem C10_no_tbody_empty_month_witness:
  "map (\<lambda>d. localName (fst d)) (descendants (modify_page, []))
     = [''form'', ''input'', ''input'', ''input'', ''select'', ''option'', ''option'', ''textarea'']
   \<and> parseAttendanceHtml (reading modify_page) modify_page_html 2025 11
       = \<lparr> entries = [], year = 2025, month = 11 \<rparr>"
proof -
  have tags: "map (\<lambda>d. localName (fst d)) (descendants (modify_page, []))
      = [''form'', ''input'', ''input'', ''input'', ''select'', ''option'', ''option'', ''textarea'']"
    by (simp add: descendants_def modify_page_def)
  then have h: "''tbody'' \<notin> set (map (\<lambda>d. localName (fst d))
      (descendants (parse (reading modify_page) modify_page_html, [])))"
    by (simp add: reading_def)
  from C10_no_tbody_empty_month [of "reading modify_page" modify_page_html, OF h] tags
  show ?thesis by simp
qed

end
